theory Spec2Isabelle
  imports Complex_Main "HOL-Library.Word"
begin

unbundle bit_operations_syntax

section \<open>Time\<close>

text \<open>
  A \<^verbatim>\<open>std::chrono::steady_clock::time_point\<close> is a count of nanoseconds; it is
  modelled as an \<^typ>\<open>int\<close>. Every call of \<^verbatim>\<open>steady_clock::now()\<close> in the source is
  an explicit argument of the model. \<^verbatim>\<open>duration_cast\<close> to a coarser unit is integer
  division that truncates towards zero.
\<close>

type_synonym time_point = int

definition duration_div :: "int \<Rightarrow> int \<Rightarrow> int" where
  "duration_div d unit = (if (d < 0) = (unit < 0) then \<bar>d\<bar> div \<bar>unit\<bar> else - (\<bar>d\<bar> div \<bar>unit\<bar>))"

definition seconds :: "int \<Rightarrow> int" where
  "seconds n = n * 1000000000"

definition milliseconds :: "int \<Rightarrow> int" where
  "milliseconds n = n * 1000000"

definition to_milliseconds :: "int \<Rightarrow> int" where
  "to_milliseconds d = duration_div d 1000000"

definition to_microseconds :: "int \<Rightarrow> int" where
  "to_microseconds d = duration_div d 1000"

section \<open>Rate limiter (rate\_limiter.cpp)\<close>

text \<open>
  \<^verbatim>\<open>request_times_\<close> is a deque of time points, oldest first: \<^verbatim>\<open>record_request\<close>
  pushes at the back, \<^verbatim>\<open>cleanup_old_requests\<close> pops from the front.
\<close>

record RateLimiter =
  max_requests_per_second :: int
  burst_size :: int
  request_times :: "time_point list"
  request_count :: int

definition RateLimiter_init :: "int \<Rightarrow> int \<Rightarrow> RateLimiter" where
  "RateLimiter_init m b =
     \<lparr>max_requests_per_second = m, burst_size = b, request_times = [], request_count = 0\<rparr>"

text \<open>\<^verbatim>\<open>static_cast<size_t>\<close> of an \<^verbatim>\<open>int\<close>: a negative value wraps modulo \<open>2^64\<close>.\<close>

definition size_t_of_int :: "int \<Rightarrow> nat" where
  "size_t_of_int i = nat (i mod 2 ^ 64)"

text \<open>The count of \<^verbatim>\<open>std::count_if\<close> is stored in an \<^verbatim>\<open>int\<close> (32 bits, two's complement).\<close>

definition int_of_count :: "nat \<Rightarrow> int" where
  "int_of_count n = sint (word_of_nat n :: 32 word)"

text \<open>
  \<^verbatim>\<open>while (!request_times_.empty() && request_times_.front() < cutoff) pop_front();\<close>
  with \<^verbatim>\<open>cutoff = now - seconds(60)\<close>.
\<close>

definition cleanup_old_requests :: "time_point \<Rightarrow> time_point list \<Rightarrow> time_point list" where
  "cleanup_old_requests now ts = dropWhile (\<lambda>t. t < now - seconds 60) ts"

text \<open>
  \<^verbatim>\<open>can_request\<close> reads the clock twice: \<open>now1\<close> inside \<^verbatim>\<open>cleanup_old_requests\<close>,
  \<open>now2\<close> for the rate check. It returns the answer and the limiter after cleanup.
\<close>

definition can_request :: "time_point \<Rightarrow> time_point \<Rightarrow> RateLimiter \<Rightarrow> bool \<times> RateLimiter" where
  "can_request now1 now2 rl =
     (let ts = cleanup_old_requests now1 (request_times rl);
          rl' = rl\<lparr>request_times := ts\<rparr>
      in if length ts \<ge> size_t_of_int (burst_size rl) then (False, rl')
         else
           (let one_second_ago = now2 - seconds 1;
                recent_requests = int_of_count (length (filter (\<lambda>t. t > one_second_ago) ts))
            in (recent_requests < max_requests_per_second rl, rl')))"

definition record_request :: "time_point \<Rightarrow> RateLimiter \<Rightarrow> RateLimiter" where
  "record_request now rl =
     rl\<lparr>request_times := request_times rl @ [now], request_count := request_count rl + 1\<rparr>"

text \<open>The number of recorded requests inside the trailing window of \<open>w\<close> seconds.\<close>

definition requests_within :: "int \<Rightarrow> time_point \<Rightarrow> time_point list \<Rightarrow> nat" where
  "requests_within w now ts = length (filter (\<lambda>t. t > now - seconds w) ts)"

text \<open>The order limiter of \<^verbatim>\<open>OrderRateLimiter\<close>: 10 orders per second, burst of 20.\<close>

definition order_limiter :: RateLimiter where
  "order_limiter = RateLimiter_init 10 20"

section \<open>Decimal output of integers\<close>

text \<open>
  \<^verbatim>\<open>operator<<\<close> and \<^verbatim>\<open>std::to_string\<close> on an integer write its decimal digits,
  with a leading minus sign for a negative value.
\<close>

definition digit_char :: "nat \<Rightarrow> char" where
  "digit_char d = char_of (48 + d)"

fun decimal_nat :: "nat \<Rightarrow> string" where
  "decimal_nat n =
     (if n < 10 then [digit_char n] else decimal_nat (n div 10) @ [digit_char (n mod 10)])"

text \<open>The digits \<open>0\<close> to \<open>9\<close>.\<close>

definition is_digit :: "char \<Rightarrow> bool" where
  "is_digit c \<longleftrightarrow> 48 \<le> (of_char c :: nat) \<and> (of_char c :: nat) \<le> 57"

definition decimal_int :: "int \<Rightarrow> string" where
  "decimal_int i = (if i < 0 then CHR ''-'' # decimal_nat (nat (- i)) else decimal_nat (nat i))"

section \<open>Types (types.h)\<close>

text \<open>
  A \<^verbatim>\<open>double\<close> is modelled as a \<^typ>\<open>real\<close>: finite values with exact arithmetic.
  Where the source divides by a value that can be zero the IEEE result is written out.
\<close>

datatype OrderSide = BUY | SELL

datatype OrderStatus = NEW | PARTIALLY_FILLED | FILLED | CANCELED | REJECTED | EXPIRED

record PriceLevel =
  price :: real
  quantity :: real

record OrderBook =
  bids :: "PriceLevel list"
  asks :: "PriceLevel list"
  timestamp :: time_point

record Order =
  order_id :: string
  client_order_id :: string
  order_symbol :: string
  order_side :: OrderSide
  order_price :: real
  order_quantity :: real
  executed_quantity :: real
  order_status :: OrderStatus
  created_time :: time_point
  updated_time :: time_point

record LatencyMetrics =
  avg_order_latency_ms :: real
  max_order_latency_ms :: real
  min_order_latency_ms :: real
  avg_reaction_latency_ms :: real
  max_reaction_latency_ms :: real
  min_reaction_latency_ms :: real
  total_orders :: int
  successful_orders :: int
  failed_orders :: int
  reconnect_count :: int
  start_time :: time_point

definition LatencyMetrics_init :: LatencyMetrics where
  "LatencyMetrics_init =
     \<lparr>avg_order_latency_ms = 0, max_order_latency_ms = 0, min_order_latency_ms = 999999,
      avg_reaction_latency_ms = 0, max_reaction_latency_ms = 0, min_reaction_latency_ms = 999999,
      total_orders = 0, successful_orders = 0, failed_orders = 0, reconnect_count = 0,
      start_time = 0\<rparr>"

definition update_latency :: "real \<Rightarrow> LatencyMetrics \<Rightarrow> LatencyMetrics" where
  "update_latency latency_ms m =
     m\<lparr>avg_order_latency_ms :=
         (avg_order_latency_ms m * of_int (total_orders m) + latency_ms) / of_int (total_orders m + 1),
       max_order_latency_ms := max (max_order_latency_ms m) latency_ms,
       min_order_latency_ms := min (min_order_latency_ms m) latency_ms,
       total_orders := total_orders m + 1\<rparr>"

definition update_reaction_latency :: "real \<Rightarrow> LatencyMetrics \<Rightarrow> LatencyMetrics" where
  "update_reaction_latency latency_ms m =
     m\<lparr>avg_reaction_latency_ms :=
         (if total_orders m = 0 then latency_ms
          else (avg_reaction_latency_ms m * of_int (total_orders m) + latency_ms)
                 / of_int (total_orders m + 1)),
       max_reaction_latency_ms := max (max_reaction_latency_ms m) latency_ms,
       min_reaction_latency_ms := min (min_reaction_latency_ms m) latency_ms\<rparr>"

section \<open>Order manager (order\_manager.cpp)\<close>

text \<open>The fields of \<^verbatim>\<open>Config\<close> that the order manager reads.\<close>

record Config =
  symbol :: string
  spread_percentage :: real
  order_size :: real
  price_precision :: int
  order_update_cooldown :: int

text \<open>The defaults of config.h; the cooldown is a count of milliseconds.\<close>

definition default_config :: Config where
  "default_config =
     \<lparr>symbol = ''BTCUSDT'', spread_percentage = 2 / 100, order_size = 1 / 1000,
      price_precision = 2, order_update_cooldown = 100\<rparr>"

record OrderManager =
  config :: Config
  active_bid_order :: "Order option"
  active_ask_order :: "Order option"
  last_mid_price :: real
  last_order_update :: time_point
  metrics :: LatencyMetrics

text \<open>
  The constructor: no active order, \<^verbatim>\<open>last_mid_price_{0.0}\<close>, a default-constructed
  \<^verbatim>\<open>last_order_update_\<close> (the clock's epoch) and fresh metrics stamped with the clock.
\<close>

definition OrderManager_init :: "Config \<Rightarrow> time_point \<Rightarrow> OrderManager" where
  "OrderManager_init cfg now =
     \<lparr>config = cfg, active_bid_order = None, active_ask_order = None, last_mid_price = 0,
      last_order_update = 0, metrics = LatencyMetrics_init\<lparr>start_time := now\<rparr>\<rparr>"

text \<open>The calls the manager makes on \<^verbatim>\<open>IExchange\<close>, in the order they are issued.\<close>

datatype exchange_op =
  Cancel_order string string
  | Place_limit_order string OrderSide real real string

text \<open>\<^verbatim>\<open>std::round\<close> rounds half away from zero.\<close>

definition cpp_round :: "real \<Rightarrow> real" where
  "cpp_round x = (if 0 \<le> x then of_int \<lfloor>x + 1 / 2\<rfloor> else - of_int \<lfloor>- x + 1 / 2\<rfloor>)"

definition format_price :: "Config \<Rightarrow> real \<Rightarrow> real" where
  "format_price cfg p =
     (let multiplier = 10 powi (price_precision cfg) in cpp_round (p * multiplier) / multiplier)"

text \<open>
  \<^verbatim>\<open>generate_client_order_id\<close>: \<open>epoch_count\<close> is the reading of
  \<^verbatim>\<open>system_clock::now().time_since_epoch().count()\<close> and \<open>rnd\<close> the draw of
  \<^verbatim>\<open>uniform_int_distribution<>(100000, 999999)\<close>.
\<close>

definition generate_client_order_id :: "OrderSide \<Rightarrow> int \<Rightarrow> int \<Rightarrow> string" where
  "generate_client_order_id sd epoch_count rnd =
     ''MM_'' @ (if sd = BUY then ''BID_'' else ''ASK_'') @ decimal_int epoch_count
       @ ''_'' @ decimal_int rnd"

text \<open>The side tag of a client order id, without its closing underscore.\<close>

definition side_tag :: "OrderSide \<Rightarrow> string" where
  "side_tag sd = (if sd = BUY then ''BID'' else ''ASK'')"

text \<open>
  \<^verbatim>\<open>place_order\<close>: \<open>result\<close> is what \<^verbatim>\<open>exchange_->place_limit_order\<close> returns
  (\<^verbatim>\<open>std::nullopt\<close> is \<open>None\<close>).
\<close>

definition place_order ::
  "OrderSide \<Rightarrow> real \<Rightarrow> real \<Rightarrow> int \<Rightarrow> int \<Rightarrow> Order option \<Rightarrow> OrderManager
     \<Rightarrow> bool \<times> OrderManager \<times> exchange_op list" where
  "place_order sd p q epoch_count rnd result s =
     (let cid = generate_client_order_id sd epoch_count rnd;
          ops = [Place_limit_order (symbol (config s)) sd p q cid]
      in case result of
           None \<Rightarrow>
             (False, s\<lparr>metrics := (metrics s)\<lparr>failed_orders := failed_orders (metrics s) + 1\<rparr>\<rparr>, ops)
         | Some ord \<Rightarrow>
             (True,
              (if sd = BUY then s\<lparr>active_bid_order := Some ord\<rparr>
               else s\<lparr>active_ask_order := Some ord\<rparr>),
              ops))"

text \<open>
  \<^verbatim>\<open>cancel_order\<close>: \<open>result\<close> is what \<^verbatim>\<open>exchange_->cancel_order\<close> returns, an
  \<^verbatim>\<open>optional<bool>\<close>; a null order is not sent.
\<close>

definition cancel_order :: "Config \<Rightarrow> Order option \<Rightarrow> bool option \<Rightarrow> bool \<times> exchange_op list" where
  "cancel_order cfg ord result =
     (case ord of
        None \<Rightarrow> (True, [])
      | Some ord' \<Rightarrow> (result = Some True, [Cancel_order (symbol cfg) (order_id ord')]))"

definition update_metrics :: "time_point \<Rightarrow> time_point \<Rightarrow> time_point \<Rightarrow> OrderManager \<Rightarrow> OrderManager" where
  "update_metrics start orderbook_time end_time s =
     (let execution_latency_ms = of_int (to_microseconds (end_time - start)) / 1000;
          reaction_latency_ms = of_int (to_microseconds (end_time - orderbook_time)) / 1000;
          m1 = update_latency execution_latency_ms (metrics s);
          m2 = update_reaction_latency reaction_latency_ms m1
      in s\<lparr>metrics := m2\<lparr>successful_orders := successful_orders m2 + 2\<rparr>\<rparr>)"

text \<open>
  What one run of \<^verbatim>\<open>place_market_maker_orders\<close> reads from outside the manager: the
  clock at entry, the results of the two cancels, for each leg the system clock and the
  random draw of its client order id and the exchange's answer, the clock stored in
  \<^verbatim>\<open>last_order_update_\<close> and the clock read by \<^verbatim>\<open>update_metrics\<close>.
\<close>

record place_env =
  entry_clock :: time_point
  cancel_bid_result :: "bool option"
  cancel_ask_result :: "bool option"
  bid_epoch :: int
  bid_rnd :: int
  bid_result :: "Order option"
  ask_epoch :: int
  ask_rnd :: int
  ask_result :: "Order option"
  update_clock :: time_point
  metrics_clock :: time_point

definition PRICE_CHANGE_THRESHOLD :: real where
  "PRICE_CHANGE_THRESHOLD = 1 / 10000"

text \<open>
  \<^verbatim>\<open>std::abs(mid_price - last_mid_price_) / last_mid_price_ > PRICE_CHANGE_THRESHOLD\<close>.
  Division by \<open>0.0\<close> gives \<open>+inf\<close> for a non-zero numerator (the comparison holds) and
  NaN for \<open>0.0 / 0.0\<close> (it fails).
\<close>

definition price_change_exceeds :: "real \<Rightarrow> real \<Rightarrow> bool" where
  "price_change_exceeds mid_price last_mid =
     (if last_mid = 0 then mid_price - last_mid \<noteq> 0
      else \<bar>mid_price - last_mid\<bar> / last_mid > PRICE_CHANGE_THRESHOLD)"

text \<open>
  \<^verbatim>\<open>place_market_maker_orders\<close> returns its result, the manager afterwards and the
  exchange calls it made. The two cancels, and then the two placements, run on parallel
  threads in the source; they write disjoint fields or increment one counter under a
  mutex, so the model runs the bid leg before the ask leg.
\<close>

definition place_market_maker_orders ::
  "real \<Rightarrow> time_point \<Rightarrow> place_env \<Rightarrow> OrderManager \<Rightarrow> bool \<times> OrderManager \<times> exchange_op list" where
  "place_market_maker_orders mid_price orderbook_time env s =
     (if mid_price \<le> 0 then (False, s, [])
      else
        let cfg = config s;
            bid_price = format_price cfg (mid_price * (1 - spread_percentage cfg));
            ask_price = format_price cfg (mid_price * (1 + spread_percentage cfg))
        in if active_bid_order s \<noteq> None \<and> active_ask_order s \<noteq> None
              \<and> \<not> price_change_exceeds mid_price (last_mid_price s)
           then (True, s, [])
           else
             let (s1, cancel_ops) =
                   (if active_bid_order s \<noteq> None \<and> active_ask_order s \<noteq> None
                    then (s\<lparr>active_bid_order := None, active_ask_order := None\<rparr>,
                          snd (cancel_order cfg (active_bid_order s) (cancel_bid_result env))
                            @ snd (cancel_order cfg (active_ask_order s) (cancel_ask_result env)))
                    else (s, []));
                 (bid_success, s2, bid_ops) =
                   place_order BUY bid_price (order_size cfg) (bid_epoch env) (bid_rnd env)
                     (bid_result env) s1;
                 (ask_success, s3, ask_ops) =
                   place_order SELL ask_price (order_size cfg) (ask_epoch env) (ask_rnd env)
                     (ask_result env) s2;
                 s4 = s3\<lparr>last_mid_price := mid_price, last_order_update := update_clock env\<rparr>;
                 s5 = update_metrics (entry_clock env) orderbook_time (metrics_clock env) s4
             in (bid_success \<and> ask_success, s5, cancel_ops @ bid_ops @ ask_ops))"

text \<open>\<^verbatim>\<open>should_update_orders\<close>; \<open>now\<close> is its reading of the clock.\<close>

definition should_update_orders :: "real \<Rightarrow> time_point \<Rightarrow> OrderManager \<Rightarrow> bool" where
  "should_update_orders new_mid_price now s =
     (if \<bar>new_mid_price - last_mid_price s\<bar> < 1 / 100000 then False
      else if to_milliseconds (now - last_order_update s) < order_update_cooldown (config s)
      then False
      else True)"

definition update_orders_if_needed ::
  "real \<Rightarrow> time_point \<Rightarrow> time_point \<Rightarrow> place_env \<Rightarrow> OrderManager
     \<Rightarrow> bool \<times> OrderManager \<times> exchange_op list" where
  "update_orders_if_needed new_mid_price orderbook_time now env s =
     (if \<not> should_update_orders new_mid_price now s then (True, s, [])
      else place_market_maker_orders new_mid_price orderbook_time env s)"

text \<open>\<^verbatim>\<open>cancel_all_active_orders\<close>, with the results of the cancels it sends.\<close>

definition cancel_all_active_orders ::
  "bool option \<Rightarrow> bool option \<Rightarrow> OrderManager \<Rightarrow> bool \<times> OrderManager \<times> exchange_op list" where
  "cancel_all_active_orders bid_cancel ask_cancel s =
     (let (ok_bid, bid_ops) = cancel_order (config s) (active_bid_order s) bid_cancel;
          (ok_ask, ask_ops) = cancel_order (config s) (active_ask_order s) ask_cancel
      in (ok_bid \<and> ok_ask, s\<lparr>active_bid_order := None, active_ask_order := None\<rparr>,
          bid_ops @ ask_ops))"

definition reset_metrics :: "time_point \<Rightarrow> OrderManager \<Rightarrow> OrderManager" where
  "reset_metrics now s = s\<lparr>metrics := LatencyMetrics_init\<lparr>start_time := now\<rparr>\<rparr>"

text \<open>A session of the manager: the calls of its public operations, in order.\<close>

datatype manager_op =
  Update_orders_if_needed real time_point time_point place_env
  | Place_market_maker_orders real time_point place_env
  | Cancel_all_active_orders "bool option" "bool option"
  | Reset_metrics time_point

fun manager_step :: "manager_op \<Rightarrow> OrderManager \<Rightarrow> OrderManager \<times> exchange_op list" where
  "manager_step (Update_orders_if_needed m obt now env) s =
     snd (update_orders_if_needed m obt now env s)"
| "manager_step (Place_market_maker_orders m obt env) s =
     snd (place_market_maker_orders m obt env s)"
| "manager_step (Cancel_all_active_orders b a) s = snd (cancel_all_active_orders b a s)"
| "manager_step (Reset_metrics now) s = (reset_metrics now s, [])"

fun run_session :: "manager_op list \<Rightarrow> OrderManager \<Rightarrow> OrderManager \<times> exchange_op list" where
  "run_session [] s = (s, [])"
| "run_session (x # ops) s =
     (let (s1, tr1) = manager_step x s; (s2, tr2) = run_session ops s1 in (s2, tr1 @ tr2))"

text \<open>The placements in a trace: every order issuance the manager attempted.\<close>

fun is_place :: "exchange_op \<Rightarrow> bool" where
  "is_place (Place_limit_order _ _ _ _ _) = True"
| "is_place (Cancel_order _ _) = False"

definition total_attempted :: "exchange_op list \<Rightarrow> int" where
  "total_attempted tr = int (length (filter is_place tr))"

text \<open>The gate of \<^verbatim>\<open>place_market_maker_orders\<close> is open: the run cancels and places.\<close>

definition place_gate_open :: "real \<Rightarrow> OrderManager \<Rightarrow> bool" where
  "place_gate_open mid_price s \<longleftrightarrow>
     0 < mid_price \<and>
     (active_bid_order s = None \<or> active_ask_order s = None
        \<or> price_change_exceeds mid_price (last_mid_price s))"

subsection \<open>Concrete sessions\<close>

text \<open>
  The first book of the end-to-end scenarios: mid 50050, spread 2 percent, quantity 0.001,
  two decimals. The venue's answers are the orders below.
\<close>

definition venue_bid :: Order where
  "venue_bid =
     \<lparr>order_id = ''1001'', client_order_id = ''MM_BID_1700000000000000000_123456'',
      order_symbol = ''BTCUSDT'', order_side = BUY, order_price = 49049,
      order_quantity = 1 / 1000, executed_quantity = 0, order_status = NEW,
      created_time = seconds 1, updated_time = seconds 1\<rparr>"

definition venue_ask :: Order where
  "venue_ask =
     \<lparr>order_id = ''1002'', client_order_id = ''MM_ASK_1700000000000000500_654321'',
      order_symbol = ''BTCUSDT'', order_side = SELL, order_price = 51051,
      order_quantity = 1 / 1000, executed_quantity = 0, order_status = NEW,
      created_time = seconds 1, updated_time = seconds 1\<rparr>"

text \<open>A run that starts one second after the epoch and takes one millisecond.\<close>

definition env_accept :: place_env where
  "env_accept =
     \<lparr>entry_clock = seconds 1, cancel_bid_result = Some True, cancel_ask_result = Some True,
      bid_epoch = 1700000000000000000, bid_rnd = 123456, bid_result = Some venue_bid,
      ask_epoch = 1700000000000000500, ask_rnd = 654321, ask_result = Some venue_ask,
      update_clock = seconds 1 + milliseconds 1, metrics_clock = seconds 1 + milliseconds 1\<rparr>"

text \<open>The venue rejects the bid and accepts the ask.\<close>

definition env_reject_bid :: place_env where
  "env_reject_bid = env_accept\<lparr>bid_result := None\<rparr>"

text \<open>The venue rejects both legs.\<close>

definition env_reject_both :: place_env where
  "env_reject_both = env_accept\<lparr>bid_result := None, ask_result := None\<rparr>"

definition manager0 :: OrderManager where
  "manager0 = OrderManager_init default_config 0"

text \<open>The manager after the first book, both legs accepted.\<close>

definition manager_resting :: OrderManager where
  "manager_resting =
     fst (snd (update_orders_if_needed 50050 (seconds 1) (seconds 1) env_accept manager0))"

text \<open>The manager after the first book, both legs rejected.\<close>

definition manager_rejected :: OrderManager where
  "manager_rejected =
     fst (snd (update_orders_if_needed 50050 (seconds 1) (seconds 1) env_reject_both manager0))"

text \<open>Twenty requests, one per second from the epoch on.\<close>

definition spaced_limiter :: RateLimiter where
  "spaced_limiter = order_limiter\<lparr>request_times := map (\<lambda>i. seconds (int i)) [0..<20]\<rparr>"

text \<open>
  The admit test as the specification words it: inside the trailing one-second window the
  number of recorded requests is below both limits.
\<close>

definition spec_can_request :: "time_point \<Rightarrow> RateLimiter \<Rightarrow> bool" where
  "spec_can_request now rl \<longleftrightarrow>
     int (requests_within 1 now (request_times rl)) < max_requests_per_second rl \<and>
     int (requests_within 1 now (request_times rl)) < burst_size rl"

text \<open>
  Whenever the manager holds a leg, the last published mid is positive: legs are only
  stored by a run that then stores its positive mid.
\<close>

definition legs_priced :: "OrderManager \<Rightarrow> bool" where
  "legs_priced s \<longleftrightarrow>
     (active_bid_order s = None \<and> active_ask_order s = None) \<or> 0 < last_mid_price s"

text \<open>The value of a string of decimal digits, read from the left.\<close>

definition digit_value :: "char \<Rightarrow> nat" where
  "digit_value c = of_char c - 48"

definition digits_value :: "string \<Rightarrow> nat" where
  "digits_value cs = foldl (\<lambda>acc c. acc * 10 + digit_value c) 0 cs"

text \<open>The client order ids of the placements in a trace.\<close>

fun placed_ids :: "exchange_op list \<Rightarrow> string list" where
  "placed_ids [] = []"
| "placed_ids (Place_limit_order _ _ _ _ cid # tr) = cid # placed_ids tr"
| "placed_ids (Cancel_order _ _ # tr) = placed_ids tr"

text \<open>
  A second run one second later whose bid leg reads the same system clock count (the wall
  clock was set back) and draws the same random number as the first.
\<close>

definition env_same_tick :: place_env where
  "env_same_tick =
     env_accept\<lparr>entry_clock := seconds 2, ask_epoch := 1700000000000000900, ask_rnd := 222222,
       update_clock := seconds 2 + milliseconds 1, metrics_clock := seconds 2 + milliseconds 1\<rparr>"

definition colliding_session :: "manager_op list" where
  "colliding_session =
     [Update_orders_if_needed 50050 (seconds 1) (seconds 1) env_accept,
      Update_orders_if_needed 50100 (seconds 2) (seconds 2) env_same_tick]"

section \<open>Order-book decoder (binance\_exchange.cpp, market\_maker.cpp)\<close>

text \<open>
  The document that \<^verbatim>\<open>Json::Reader\<close> makes of a message. An element of \<^verbatim>\<open>bids\<close> or
  \<^verbatim>\<open>asks\<close> is an array of at least two decimal strings, read by \<^verbatim>\<open>std::stod\<close>
  (\<open>Entry_levels\<close>), or not such an array and skipped (\<open>Entry_short\<close>), or an array
  whose strings \<^verbatim>\<open>std::stod\<close> refuses with an exception (\<open>Entry_invalid\<close>).
\<close>

datatype depth_entry = Entry_levels real real | Entry_short | Entry_invalid

datatype depth_document =
  Unparsed
  | Document "depth_entry list option" "depth_entry list option"

text \<open>The two parsing loops; \<open>None\<close> is the exception of \<^verbatim>\<open>std::stod\<close>.\<close>

fun parse_levels :: "depth_entry list \<Rightarrow> PriceLevel list option" where
  "parse_levels [] = Some []"
| "parse_levels (Entry_levels p q # es) =
     (case parse_levels es of
        None \<Rightarrow> None
      | Some ls \<Rightarrow> Some (\<lparr>price = p, quantity = q\<rparr> # ls))"
| "parse_levels (Entry_short # es) = parse_levels es"
| "parse_levels (Entry_invalid # es) = None"

text \<open>The fields of \<^verbatim>\<open>MarketMakerBotV2\<close> that a book update touches.\<close>

record MarketMakerBot =
  bot_orderbook :: OrderBook
  last_orderbook_time :: time_point
  current_mid_price :: real
  price_changed :: bool

text \<open>
  \<^verbatim>\<open>update_mid_price\<close> returns the bot and whether it raised the price-change
  notification (\<^verbatim>\<open>price_changed_.store(true)\<close> and \<^verbatim>\<open>price_change_cv_.notify_one()\<close>).
\<close>

definition update_mid_price :: "MarketMakerBot \<Rightarrow> MarketMakerBot \<times> bool" where
  "update_mid_price mm =
     (case (bids (bot_orderbook mm), asks (bot_orderbook mm)) of
        (b # _, a # _) \<Rightarrow>
          (let best_bid = price b; best_ask = price a;
               new_mid_price = (best_bid + best_ask) / 2;
               old_mid_price = current_mid_price mm;
               mm' = mm\<lparr>current_mid_price := new_mid_price\<rparr>
           in if \<bar>old_mid_price - new_mid_price\<bar> > 1 / 100000
              then (mm'\<lparr>price_changed := True\<rparr>, True)
              else (mm', False))
      | _ \<Rightarrow> (mm, False))"

definition handle_orderbook_update ::
  "OrderBook \<Rightarrow> time_point \<Rightarrow> MarketMakerBot \<Rightarrow> MarketMakerBot \<times> bool" where
  "handle_orderbook_update orderbook now mm =
     update_mid_price (mm\<lparr>bot_orderbook := orderbook, last_orderbook_time := now\<rparr>)"

text \<open>
  \<^verbatim>\<open>process_binance_orderbook\<close>, with the bot's \<^verbatim>\<open>handle_orderbook_update\<close> as the
  order-book handler (as \<^verbatim>\<open>setup_exchange\<close> wires it). The state is the exchange's
  \<^verbatim>\<open>current_orderbook_\<close> and the bot; the result adds whether a price-change notification
  was raised. A document that does not parse, lacks a member or makes \<^verbatim>\<open>std::stod\<close> throw
  changes nothing. The local \<^verbatim>\<open>OrderBook\<close> keeps its default time stamp.
\<close>

definition process_binance_orderbook ::
  "depth_document \<Rightarrow> time_point \<Rightarrow> OrderBook \<times> MarketMakerBot
     \<Rightarrow> OrderBook \<times> MarketMakerBot \<times> bool" where
  "process_binance_orderbook doc now st =
     (case doc of
        Document (Some bs) (Some as) \<Rightarrow>
          (case parse_levels bs of
             None \<Rightarrow> (fst st, snd st, False)
           | Some bl \<Rightarrow>
               (case parse_levels as of
                  None \<Rightarrow> (fst st, snd st, False)
                | Some al \<Rightarrow>
                    (let orderbook = \<lparr>bids = bl, asks = al, timestamp = 0\<rparr>
                     in (orderbook, handle_orderbook_update orderbook now (snd st)))))
      | _ \<Rightarrow> (fst st, snd st, False))"

text \<open>A book is crossed when its best bid is not below its best ask.\<close>

definition crossed :: "OrderBook \<Rightarrow> bool" where
  "crossed ob = (case (bids ob, asks ob) of (b # _, a # _) \<Rightarrow> price b \<ge> price a | _ \<Rightarrow> False)"

definition empty_book :: OrderBook where
  "empty_book = \<lparr>bids = [], asks = [], timestamp = 0\<rparr>"

definition bot0 :: MarketMakerBot where
  "bot0 = \<lparr>bot_orderbook = empty_book, last_orderbook_time = 0, current_mid_price = 50000,
            price_changed = False\<rparr>"

text \<open>A payload whose best bid 50100 is above its best ask 50000.\<close>

definition crossed_document :: depth_document where
  "crossed_document = Document (Some [Entry_levels 50100 1]) (Some [Entry_levels 50000 1])"

text \<open>A payload with bids and no ask.\<close>

definition one_sided_document :: depth_document where
  "one_sided_document = Document (Some [Entry_levels 50100 1]) (Some [])"

text \<open>The first book of the end-to-end scenarios: bid 50000, ask 50100.\<close>

definition first_document :: depth_document where
  "first_document = Document (Some [Entry_levels 50000 1]) (Some [Entry_levels 50100 1])"

section \<open>Request signing (rest\_client.cpp, websocket\_trading\_client.cpp)\<close>

text \<open>
  \<^verbatim>\<open>HMAC(EVP_sha256(), key, ...)\<close> is OpenSSL's; it is a parameter \<open>hmac\<close> of the model,
  from the key and the data to the bytes of the digest. The digest is written byte by
  byte with \<^verbatim>\<open>std::hex << std::setw(2) << std::setfill('0') << (int)digest[i]\<close>.
\<close>

type_synonym byte = "8 word"

type_synonym hmac_fun = "string \<Rightarrow> string \<Rightarrow> byte list"

definition hex_digit :: "nat \<Rightarrow> char" where
  "hex_digit d = ''0123456789abcdef'' ! (d mod 16)"

fun hex_nat :: "nat \<Rightarrow> string" where
  "hex_nat n = (if n < 16 then [hex_digit n] else hex_nat (n div 16) @ [hex_digit (n mod 16)])"

definition setw2_fill0 :: "string \<Rightarrow> string" where
  "setw2_fill0 s = replicate (2 - length s) (CHR ''0'') @ s"

definition digest_hex :: "byte list \<Rightarrow> string" where
  "digest_hex digest = concat (map (\<lambda>b. setw2_fill0 (hex_nat (unat b))) digest)"

definition is_lower_hex :: "char \<Rightarrow> bool" where
  "is_lower_hex c \<longleftrightarrow> c \<in> set ''0123456789abcdef''"

definition generate_signature :: "hmac_fun \<Rightarrow> string \<Rightarrow> string \<Rightarrow> string" where
  "generate_signature hmac api_secret query_string = digest_hex (hmac api_secret query_string)"

text \<open>
  \<^verbatim>\<open>RestClient::build_query_string\<close>: the loop over the parameters with its
  \<^verbatim>\<open>first\<close> flag and the string stream \<open>ss\<close>.
\<close>

fun build_query_loop :: "bool \<Rightarrow> string \<Rightarrow> (string \<times> string) list \<Rightarrow> string" where
  "build_query_loop first ss [] = ss"
| "build_query_loop first ss ((k, v) # params) =
     build_query_loop False (ss @ (if first then [] else ''&'') @ k @ ''='' @ v) params"

definition build_query_string :: "(string \<times> string) list \<Rightarrow> string" where
  "build_query_string params = build_query_loop True [] params"

text \<open>
  The query string as the specification words it: \<open>key1=value1&key2=value2&\<dots>\<close>, the
  pairs written as they are and joined by \<open>&\<close>.
\<close>

fun spec_query_string :: "(string \<times> string) list \<Rightarrow> string" where
  "spec_query_string [] = []"
| "spec_query_string [(k, v)] = k @ ''='' @ v"
| "spec_query_string ((k, v) # p # params) = k @ ''='' @ v @ ''&'' @ spec_query_string (p # params)"

text \<open>
  \<^verbatim>\<open>RestClient::send_signed_request\<close> up to the transfer: the query string that goes
  into the URL, for the millisecond \<open>timestamp_ms\<close> read from the system clock. All three
  methods (POST, DELETE, GET) append it to the URL after \<open>?\<close>.
\<close>

definition signed_query_string ::
  "hmac_fun \<Rightarrow> string \<Rightarrow> (string \<times> string) list \<Rightarrow> int \<Rightarrow> string" where
  "signed_query_string hmac api_secret params timestamp_ms =
     (let params_copy = params @ [(''timestamp'', decimal_int timestamp_ms)];
          query_string = build_query_string params_copy;
          signature = generate_signature hmac api_secret query_string
      in query_string @ ''&signature='' @ signature)"

definition signed_request_url ::
  "hmac_fun \<Rightarrow> string \<Rightarrow> string \<Rightarrow> string \<Rightarrow> (string \<times> string) list \<Rightarrow> int \<Rightarrow> string" where
  "signed_request_url hmac api_secret base_url endpoint params timestamp_ms =
     base_url @ endpoint @ ''?'' @ signed_query_string hmac api_secret params timestamp_ms"

text \<open>
  A \<^verbatim>\<open>Json::Value\<close>. An object keeps its members in a \<^verbatim>\<open>std::map\<close>, ordered by key
  (bytewise, the shorter of two strings first when one is a prefix of the other);
  \<^verbatim>\<open>getMemberNames\<close> lists the keys in that order.
\<close>

datatype json = JNull | JInt64 int | JString string | JObject "(string \<times> json) list"

text \<open>Bytewise order on strings.\<close>

fun string_less :: "string \<Rightarrow> string \<Rightarrow> bool" where
  "string_less [] [] = False"
| "string_less [] (_ # _) = True"
| "string_less (_ # _) [] = False"
| "string_less (a # as) (b # bs) =
     ((of_char a :: nat) < of_char b \<or> (a = b \<and> string_less as bs))"

text \<open>\<^verbatim>\<open>object[key] = value\<close> on the ordered members.\<close>

fun obj_set :: "string \<Rightarrow> json \<Rightarrow> (string \<times> json) list \<Rightarrow> (string \<times> json) list" where
  "obj_set k v [] = [(k, v)]"
| "obj_set k v ((k', v') # ms) =
     (if k = k' then (k, v) # ms
      else if string_less k k' then (k, v) # (k', v') # ms
      else (k', v') # obj_set k v ms)"

text \<open>
  \<^verbatim>\<open>asString\<close>: a string is itself, an integer its decimal digits, null the empty
  string; an object is not convertible and the call throws (\<open>None\<close>).
\<close>

fun asString :: "json \<Rightarrow> string option" where
  "asString (JString s) = Some s"
| "asString (JInt64 i) = Some (decimal_int i)"
| "asString JNull = Some []"
| "asString (JObject _) = None"

record signed_request =
  request_id :: string
  request_method :: string
  request_params :: "(string \<times> json) list"

text \<open>
  The loop of \<^verbatim>\<open>create_signed_request\<close> over \<^verbatim>\<open>getMemberNames()\<close>, writing
  \<open>key=value\<close> into the stream; \<open>None\<close> when \<^verbatim>\<open>asString\<close> throws.
\<close>

fun params_query_loop :: "bool \<Rightarrow> string \<Rightarrow> (string \<times> json) list \<Rightarrow> string option" where
  "params_query_loop first query_stream [] = Some query_stream"
| "params_query_loop first query_stream ((k, v) # ms) =
     (case asString v of
        None \<Rightarrow> None
      | Some sv \<Rightarrow>
          params_query_loop False (query_stream @ (if first then [] else ''&'') @ k @ ''='' @ sv) ms)"

definition generate_request_id :: "nat \<Rightarrow> string" where
  "generate_request_id counter = ''req_'' @ decimal_nat counter"

text \<open>
  \<^verbatim>\<open>create_signed_request\<close>, for the value \<open>counter\<close> of \<^verbatim>\<open>request_id_counter_\<close>
  and the millisecond \<open>timestamp_ms\<close> of \<^verbatim>\<open>get_timestamp()\<close>.
\<close>

definition create_signed_request ::
  "hmac_fun \<Rightarrow> string \<Rightarrow> string \<Rightarrow> nat \<Rightarrow> int \<Rightarrow> string \<Rightarrow> (string \<times> json) list
     \<Rightarrow> signed_request option" where
  "create_signed_request hmac api_key api_secret counter timestamp_ms meth params =
     (let signed_params = obj_set ''timestamp'' (JInt64 timestamp_ms)
                            (obj_set ''apiKey'' (JString api_key) params)
      in case params_query_loop True [] signed_params of
           None \<Rightarrow> None
         | Some query_string \<Rightarrow>
             (let signature = generate_signature hmac api_secret query_string
              in Some \<lparr>request_id = generate_request_id counter, request_method = meth,
                       request_params = obj_set ''signature'' (JString signature) signed_params\<rparr>))"

text \<open>The members of an object as the strings that \<^verbatim>\<open>asString\<close> gives.\<close>

definition member_strings :: "(string \<times> json) list \<Rightarrow> (string \<times> string) list" where
  "member_strings ms = map (\<lambda>(k, v). (k, the (asString v))) ms"

definition scalar :: "json \<Rightarrow> bool" where
  "scalar v \<longleftrightarrow> asString v \<noteq> None"

text \<open>
  The parameters of \<^verbatim>\<open>place_limit_order\<close> for a bid of 0.00100 at 49049.00, as the
  members of the \<^verbatim>\<open>Json::Value\<close>, and a stand-in digest function for concrete runs.
\<close>

definition place_params :: "(string \<times> json) list" where
  "place_params =
     [(''price'', JString ''49049.00''), (''quantity'', JString ''0.00100''),
      (''side'', JString ''BUY''), (''symbol'', JString ''BTCUSDT''),
      (''timeInForce'', JString ''GTC''), (''type'', JString ''LIMIT'')]"

definition place_pairs :: "(string \<times> string) list" where
  "place_pairs =
     [(''symbol'', ''BTCUSDT''), (''side'', ''BUY''), (''type'', ''LIMIT''),
      (''timeInForce'', ''GTC''), (''quantity'', ''0.00100''), (''price'', ''49049.00'')]"

definition toy_hmac :: hmac_fun where
  "toy_hmac k d = [word_of_nat (length k), word_of_nat (length d), 171]"

section \<open>Client frames (websocket\_client.cpp)\<close>
















section \<open>Trading client session (websocket\_trading\_client.cpp)\<close>

text \<open>
  A \<^verbatim>\<open>PendingRequest\<close>; its \<^verbatim>\<open>std::promise\<close> is a slot that is empty or holds the one
  value it was given.
\<close>

record PendingRequest =
  pending_method :: string
  sent_time :: time_point
  promise :: "json option"
  waiting :: bool

text \<open>
  The client. \<^verbatim>\<open>pending_requests_\<close> maps a request id to a shared pointer; the model
  keeps the ids of the table (in the order a sweep visits them) in \<open>pending_requests\<close>
  and the objects, which the waiting callers hold too, by request id in
  \<open>request_objects\<close>. \<open>thread_joinable\<close> says that \<^verbatim>\<open>ws_thread_\<close>, the event-loop
  thread, was started and not yet joined.

  The methods run on several threads and take \<^verbatim>\<open>requests_mutex_\<close> only around the
  table, so a method is a sequence of steps between which other threads run. Three
  counters say where the threads are: \<open>admitted\<close> callers of
  \<^verbatim>\<open>send_request_and_wait\<close> have passed the test of \<^verbatim>\<open>connected_\<close> and not yet
  inserted their request, \<open>joins_due\<close> calls of \<^verbatim>\<open>disconnect\<close> have cleared the flags
  and not yet joined the threads, \<open>sweeps_due\<close> calls have joined the threads and not yet
  swept the table.
\<close>

record TradingClient =
  ws_connected :: bool
  running :: bool
  thread_joinable :: bool
  pending_requests :: "string list"
  request_objects :: "string \<Rightarrow> PendingRequest option"
  request_id_counter :: nat
  admitted :: nat
  joins_due :: nat
  sweeps_due :: nat

definition TradingClient_init :: TradingClient where
  "TradingClient_init =
     \<lparr>ws_connected = False, running = False, thread_joinable = False, pending_requests = [],
      request_objects = (\<lambda>_. None), request_id_counter = 1, admitted = 0, joins_due = 0,
      sweeps_due = 0\<rparr>"

text \<open>
  \<^verbatim>\<open>promise.set_value\<close> throws \<^verbatim>\<open>std::future_error\<close> on a promise that holds a value;
  assigning a thread to \<^verbatim>\<open>ws_thread_\<close> while it is joinable calls \<^verbatim>\<open>std::terminate\<close>.
\<close>

datatype client_error = Promise_already_satisfied | Thread_terminate

definition set_value :: "json \<Rightarrow> PendingRequest \<Rightarrow> client_error + PendingRequest" where
  "set_value v r =
     (case promise r of
        None \<Rightarrow> Inr (r\<lparr>promise := Some v\<rparr>)
      | Some _ \<Rightarrow> Inl Promise_already_satisfied)"

text \<open>The value a swept request is completed with: \<^verbatim>\<open>error["error"] = "Connection closed"\<close>.\<close>

definition connection_closed :: json where
  "connection_closed = JObject [(''error'', JString ''Connection closed'')]"

text \<open>The loop of the sweep over the table (lines 181 to 187).\<close>

fun fail_pending ::
  "string list \<Rightarrow> (string \<Rightarrow> PendingRequest option)
     \<Rightarrow> client_error + (string \<Rightarrow> PendingRequest option)" where
  "fail_pending [] objs = Inr objs"
| "fail_pending (rid # rids) objs =
     (case objs rid of
        None \<Rightarrow> fail_pending rids objs
      | Some r \<Rightarrow>
          if waiting r
          then (case set_value connection_closed r of
                  Inl e \<Rightarrow> Inl e
                | Inr r' \<Rightarrow> fail_pending rids (objs(rid \<mapsto> r')))
          else fail_pending rids objs)"

text \<open>
  \<^verbatim>\<open>disconnect\<close> in its three steps. Lines 133 to 141: return at once when
  \<^verbatim>\<open>running_\<close> is false (the result says whether the call goes on), otherwise clear
  both flags. Lines 143 to 176: close the connection, sleep, stop the client and join the
  threads. Lines 178 to 189, under the mutex: the sweep, then \<^verbatim>\<open>pending_requests_.clear()\<close>.
\<close>

definition disconnect_begin :: "TradingClient \<Rightarrow> bool \<times> TradingClient" where
  "disconnect_begin c =
     (if \<not> running c then (False, c)
      else (True, c\<lparr>running := False, ws_connected := False\<rparr>))"

definition disconnect_join :: "TradingClient \<Rightarrow> TradingClient" where
  "disconnect_join c = c\<lparr>thread_joinable := False\<rparr>"

definition disconnect_sweep :: "TradingClient \<Rightarrow> client_error + TradingClient" where
  "disconnect_sweep c =
     (case fail_pending (pending_requests c) (request_objects c) of
        Inl e \<Rightarrow> Inl e
      | Inr objs \<Rightarrow> Inr (c\<lparr>request_objects := objs, pending_requests := []\<rparr>))"

text \<open>
  \<^verbatim>\<open>connect\<close> up to the start of the event loop: nothing when already connected,
  otherwise \<^verbatim>\<open>running_ = true\<close> and the thread is assigned to \<^verbatim>\<open>ws_thread_\<close>.
\<close>

definition start_connect :: "TradingClient \<Rightarrow> client_error + TradingClient" where
  "start_connect c =
     (if ws_connected c then Inr c
      else if thread_joinable c then Inl Thread_terminate
      else Inr (c\<lparr>running := True, thread_joinable := True\<rparr>))"

text \<open>
  The callbacks \<^verbatim>\<open>on_open\<close> and \<^verbatim>\<open>on_close\<close> (and \<^verbatim>\<open>on_fail\<close>, which does the same);
  neither reads \<^verbatim>\<open>running_\<close>. The reconnect thread also only clears \<^verbatim>\<open>connected_\<close>.
\<close>

definition on_open :: "TradingClient \<Rightarrow> TradingClient" where
  "on_open c = c\<lparr>ws_connected := True\<rparr>"

definition on_close :: "TradingClient \<Rightarrow> TradingClient" where
  "on_close c = c\<lparr>ws_connected := False\<rparr>"

text \<open>\<^verbatim>\<open>pending_requests_[request_id] = pending\<close>.\<close>

definition table_insert :: "string \<Rightarrow> string list \<Rightarrow> string list" where
  "table_insert rid rids = (if rid \<in> set rids then rids else rid # rids)"

text \<open>
  \<^verbatim>\<open>send_request_and_wait\<close>, first step (line 405): the test of \<^verbatim>\<open>connected_\<close>,
  outside the mutex. Second step (lines 410 to 422): the request id is made from the
  counter, the \<^verbatim>\<open>PendingRequest\<close> is created and, under the mutex, stored in the
  table; \<^verbatim>\<open>connected_\<close> is not read again.
\<close>

definition connected_test :: "TradingClient \<Rightarrow> bool" where
  "connected_test c = ws_connected c"

definition insert_request :: "string \<Rightarrow> time_point \<Rightarrow> TradingClient \<Rightarrow> string \<times> TradingClient" where
  "insert_request meth now c =
     (let rid = generate_request_id (request_id_counter c);
          pending = \<lparr>pending_method = meth, sent_time = now, promise = None, waiting = True\<rparr>
      in (rid,
          c\<lparr>request_id_counter := request_id_counter c + 1,
            request_objects := (request_objects c)(rid \<mapsto> pending),
            pending_requests := table_insert rid (pending_requests c)\<rparr>))"

text \<open>The send failed: the entry is erased.\<close>

definition send_failed :: "string \<Rightarrow> TradingClient \<Rightarrow> TradingClient" where
  "send_failed rid c = c\<lparr>pending_requests := removeAll rid (pending_requests c)\<rparr>"

text \<open>The wait timed out: the caller marks its request as not waiting and erases the entry.\<close>

definition request_timeout :: "string \<Rightarrow> TradingClient \<Rightarrow> TradingClient" where
  "request_timeout rid c =
     c\<lparr>request_objects :=
         (case request_objects c rid of
            None \<Rightarrow> request_objects c
          | Some r \<Rightarrow> (request_objects c)(rid \<mapsto> r\<lparr>waiting := False\<rparr>)),
       pending_requests := removeAll rid (pending_requests c)\<rparr>"

text \<open>\<^verbatim>\<open>process_message\<close> for a response that carries the id \<open>rid\<close>; it does not read \<^verbatim>\<open>running_\<close>.\<close>

definition process_message :: "string \<Rightarrow> json \<Rightarrow> TradingClient \<Rightarrow> client_error + TradingClient" where
  "process_message rid response c =
     (if rid \<notin> set (pending_requests c) then Inr c
      else
        case request_objects c rid of
          None \<Rightarrow> Inr (c\<lparr>pending_requests := removeAll rid (pending_requests c)\<rparr>)
        | Some r \<Rightarrow>
            if waiting r
            then (case set_value response r of
                    Inl e \<Rightarrow> Inl e
                  | Inr r' \<Rightarrow>
                      Inr (c\<lparr>request_objects := (request_objects c)(rid \<mapsto> r'\<lparr>waiting := False\<rparr>),
                             pending_requests := removeAll rid (pending_requests c)\<rparr>))
            else Inr (c\<lparr>pending_requests := removeAll rid (pending_requests c)\<rparr>))"

text \<open>
  A schedule lists the steps of all threads in the order they take place. The callbacks
  and the responses run on the event-loop thread, so they take place only while that
  thread is joinable; a step of a method takes place only when a call of the method has
  reached it.
\<close>

datatype client_event =
  Start_connect
  | On_open
  | On_close
  | Connected_test
  | Insert_request string time_point
  | Send_failed string
  | Request_timeout string
  | Message string json
  | Disconnect_begin
  | Disconnect_join
  | Disconnect_sweep

fun client_step :: "client_event \<Rightarrow> TradingClient \<Rightarrow> client_error + TradingClient" where
  "client_step Start_connect c = start_connect c"
| "client_step On_open c = Inr (if thread_joinable c then on_open c else c)"
| "client_step On_close c = Inr (if thread_joinable c then on_close c else c)"
| "client_step Connected_test c =
     Inr (if connected_test c then c\<lparr>admitted := admitted c + 1\<rparr> else c)"
| "client_step (Insert_request meth now) c =
     Inr (if admitted c = 0 then c
          else snd (insert_request meth now (c\<lparr>admitted := admitted c - 1\<rparr>)))"
| "client_step (Send_failed rid) c = Inr (send_failed rid c)"
| "client_step (Request_timeout rid) c = Inr (request_timeout rid c)"
| "client_step (Message rid response) c =
     (if thread_joinable c then process_message rid response c else Inr c)"
| "client_step Disconnect_begin c =
     Inr (case disconnect_begin c of
            (True, c') \<Rightarrow> c'\<lparr>joins_due := joins_due c' + 1\<rparr>
          | (False, c') \<Rightarrow> c')"
| "client_step Disconnect_join c =
     Inr (if joins_due c = 0 then c
          else disconnect_join (c\<lparr>joins_due := joins_due c - 1, sweeps_due := sweeps_due c + 1\<rparr>))"
| "client_step Disconnect_sweep c =
     (if sweeps_due c = 0 then Inr c
      else disconnect_sweep (c\<lparr>sweeps_due := sweeps_due c - 1\<rparr>))"

fun run_client :: "client_event list \<Rightarrow> TradingClient \<Rightarrow> client_error + TradingClient" where
  "run_client [] c = Inr c"
| "run_client (e # es) c = (case client_step e c of Inl err \<Rightarrow> Inl err | Inr c' \<Rightarrow> run_client es c')"

text \<open>
  The table of a client: no id is listed twice and every entry has an object with a live
  waiter and an empty promise.
\<close>

definition table_ok :: "TradingClient \<Rightarrow> bool" where
  "table_ok c \<longleftrightarrow>
     distinct (pending_requests c)
     \<and> list_all (\<lambda>rid. case request_objects c rid of
                          None \<Rightarrow> False
                        | Some r \<Rightarrow> waiting r \<and> promise r = None) (pending_requests c)"


section \<open>The rate limiter\<close>

lemma dropWhile_sorted_filter:
  "sorted ts \<Longrightarrow> dropWhile (\<lambda>t. t < c) ts = filter (\<lambda>t. c \<le> t) (ts :: int list)"
proof (induction ts)
  case Nil
  then show ?case by simp
next
  case (Cons a ts)
  show ?case
  proof (cases "a < c")
    case True
    with Cons show ?thesis by simp
  next
    case False
    with Cons.prems have "\<forall>t \<in> set ts. c \<le> t" by auto
    then have "filter (\<lambda>t. c \<le> t) ts = ts" by (simp add: filter_id_conv)
    with False show ?thesis by simp
  qed
qed

lemma int_of_count_small: "n < 2 ^ 31 \<Longrightarrow> int_of_count n = int n"
  unfolding int_of_count_def
  by (simp add: signed_of_nat signed_take_bit_int_eq_self)

lemma size_t_of_int_nonneg: "0 \<le> b \<Longrightarrow> b < 2 ^ 64 \<Longrightarrow> size_t_of_int b = nat b"
  by (simp add: size_t_of_int_def)

text \<open>
  Claim C7, as amended. With the deque in time order, a clock that does not run backwards
  and counts inside the range of \<^verbatim>\<open>int\<close>, \<^verbatim>\<open>can_request\<close> admits exactly when the
  number of requests recorded in the trailing sixty seconds is below \<^verbatim>\<open>burst_size\<close> and
  the number recorded in the trailing second is below \<^verbatim>\<open>max_requests_per_second\<close>.
\<close>

theorem C7_can_request_windows:
  assumes "sorted (request_times rl)" and "now1 \<le> now2"
    and "0 \<le> burst_size rl" and "burst_size rl < 2 ^ 31"
    and "length (request_times rl) < 2 ^ 31"
  shows "fst (can_request now1 now2 rl) \<longleftrightarrow>
           int (length (filter (\<lambda>t. now1 - seconds 60 \<le> t) (request_times rl))) < burst_size rl \<and>
           int (requests_within 1 now2 (request_times rl)) < max_requests_per_second rl"
proof -
  let ?ts = "request_times rl"
  let ?kept = "filter (\<lambda>t. now1 - seconds 60 \<le> t) ?ts"
  have kept: "cleanup_old_requests now1 ?ts = ?kept"
    unfolding cleanup_old_requests_def using assms(1) by (rule dropWhile_sorted_filter)
  have burst: "size_t_of_int (burst_size rl) = nat (burst_size rl)"
    using assms(3,4) by (intro size_t_of_int_nonneg) auto
  have "filter (\<lambda>t. t > now2 - seconds 1) ?kept = filter (\<lambda>t. t > now2 - seconds 1) ?ts"
    using assms(2) by (auto simp: seconds_def intro!: filter_cong)
  then have recent: "length (filter (\<lambda>t. t > now2 - seconds 1) ?kept) = requests_within 1 now2 ?ts"
    by (simp add: requests_within_def)
  have "requests_within 1 now2 ?ts \<le> length ?ts"
    by (simp add: requests_within_def)
  with assms(5) have small: "requests_within 1 now2 ?ts < 2 ^ 31" by linarith
  show ?thesis
    unfolding can_request_def Let_def kept burst recent
    using assms(3) by (auto simp: int_of_count_small [OF small])
qed

lemma spaced_limiter_times:
  "request_times spaced_limiter =
     [0, 1000000000, 2000000000, 3000000000, 4000000000, 5000000000, 6000000000, 7000000000,
      8000000000, 9000000000, 10000000000, 11000000000, 12000000000, 13000000000,
      14000000000, 15000000000, 16000000000, 17000000000, 18000000000, 19000000000]"
  by code_simp

lemma spaced_limiter_limits:
  "max_requests_per_second spaced_limiter = 10" "burst_size spaced_limiter = 20"
  by (simp_all add: spaced_limiter_def order_limiter_def RateLimiter_init_def)

text \<open>
  Twenty requests spread over the last twenty-five seconds: none in the trailing second,
  all twenty in the trailing minute, and the request is refused.
\<close>

theorem C7_can_request_windows_witness:
  "sorted (request_times spaced_limiter) \<and> seconds 25 \<le> seconds 25
   \<and> 0 \<le> burst_size spaced_limiter \<and> burst_size spaced_limiter < 2 ^ 31
   \<and> length (request_times spaced_limiter) < 2 ^ 31
   \<and> int (length (filter (\<lambda>t. seconds 25 - seconds 60 \<le> t) (request_times spaced_limiter))) = 20
   \<and> requests_within 1 (seconds 25) (request_times spaced_limiter) = 0
   \<and> \<not> fst (can_request (seconds 25) (seconds 25) spaced_limiter)"
proof -
  have hyps: "sorted (request_times spaced_limiter)" "seconds 25 \<le> seconds 25"
    "0 \<le> burst_size spaced_limiter" "burst_size spaced_limiter < 2 ^ 31"
    "length (request_times spaced_limiter) < 2 ^ 31"
    by (simp_all add: spaced_limiter_times spaced_limiter_limits)
  have counts:
    "int (length (filter (\<lambda>t. seconds 25 - seconds 60 \<le> t) (request_times spaced_limiter))) = 20"
    "requests_within 1 (seconds 25) (request_times spaced_limiter) = 0"
    by (simp_all add: spaced_limiter_times seconds_def requests_within_def)
  from C7_can_request_windows [OF hyps] counts
  have "\<not> fst (can_request (seconds 25) (seconds 25) spaced_limiter)"
    by (simp add: spaced_limiter_limits)
  with hyps counts show ?thesis by blast
qed

text \<open>
  Claim C7 as stated fails: with no request in the trailing second the wording of the
  specification admits, and the code refuses.
\<close>

theorem C7_can_request_counterexample:
  "spec_can_request (seconds 25) spaced_limiter
   \<and> \<not> fst (can_request (seconds 25) (seconds 25) spaced_limiter)"
  by (simp add: spec_can_request_def can_request_def cleanup_old_requests_def
      spaced_limiter_times spaced_limiter_limits requests_within_def seconds_def
      size_t_of_int_def Let_def)


section \<open>Decimal output and client order ids\<close>

declare decimal_nat.simps [simp del]

lemma digit_char_eval:
  "digit_char 0 = CHR ''0''" "digit_char 1 = CHR ''1''" "digit_char (Suc 0) = CHR ''1''"
  "digit_char 2 = CHR ''2''" "digit_char 3 = CHR ''3''" "digit_char 4 = CHR ''4''"
  "digit_char 5 = CHR ''5''" "digit_char 6 = CHR ''6''" "digit_char 7 = CHR ''7''"
  "digit_char 8 = CHR ''8''" "digit_char 9 = CHR ''9''"
  unfolding digit_char_def by code_simp+

lemma digit_char_is_digit: "d < 10 \<Longrightarrow> is_digit (digit_char d)"
  by (simp add: is_digit_def digit_char_def)

lemma decimal_nat_digits: "list_all is_digit (decimal_nat n)"
proof (induction n rule: decimal_nat.induct)
  case (1 n)
  show ?case
  proof (cases "n < 10")
    case True
    then show ?thesis by (simp add: decimal_nat.simps [of n] digit_char_is_digit)
  next
    case False
    with 1 show ?thesis by (simp add: decimal_nat.simps [of n] digit_char_is_digit)
  qed
qed

lemma decimal_nat_nonempty: "decimal_nat n \<noteq> []"
  by (simp add: decimal_nat.simps [of n])

lemma decimal_nat_length:
  "10 ^ k \<le> n \<Longrightarrow> n < 10 ^ Suc k \<Longrightarrow> length (decimal_nat n) = Suc k"
proof (induction k arbitrary: n)
  case 0
  then show ?case by (simp add: decimal_nat.simps [of n])
next
  case (Suc k)
  have lo: "10 * m \<le> n \<Longrightarrow> m \<le> n div 10" for m :: nat by arith
  have hi: "n < 10 * m \<Longrightarrow> n div 10 < m" for m :: nat by arith
  have "(1::nat) \<le> 10 ^ k" by simp
  then have "(10::nat) \<le> 10 * 10 ^ k" by linarith
  moreover from Suc.prems(1) have "10 * 10 ^ k \<le> n" by simp
  ultimately have big: "\<not> n < 10" by linarith
  from Suc.prems have "10 ^ k \<le> n div 10" "n div 10 < 10 ^ Suc k"
    by (simp_all add: lo hi)
  then have "length (decimal_nat (n div 10)) = Suc k" by (rule Suc.IH)
  with big show ?case by (simp add: decimal_nat.simps [of n])
qed


lemma digit_value_digit_char: "d < 10 \<Longrightarrow> digit_value (digit_char d) = d"
  by (simp add: digit_value_def digit_char_def)

lemma digits_value_decimal_nat: "digits_value (decimal_nat n) = n"
proof (induction n rule: decimal_nat.induct)
  case (1 n)
  show ?case
  proof (cases "n < 10")
    case True
    then show ?thesis
      by (simp add: decimal_nat.simps [of n] digits_value_def digit_value_digit_char)
  next
    case False
    with 1 have "digits_value (decimal_nat (n div 10)) = n div 10" by simp
    with False show ?thesis
      by (simp add: decimal_nat.simps [of n] digits_value_def digit_value_digit_char)
  qed
qed

lemma decimal_nat_inj: "decimal_nat a = decimal_nat b \<Longrightarrow> a = b"
  by (metis digits_value_decimal_nat)

lemma minus_not_digit: "\<not> is_digit CHR ''-''"
  by (simp add: is_digit_def)

lemma underscore_not_digit: "\<not> is_digit CHR ''_''"
  by (simp add: is_digit_def)

lemma decimal_nat_hd_digit: "is_digit (hd (decimal_nat n))"
  using decimal_nat_digits [of n] decimal_nat_nonempty [of n]
  by (cases "decimal_nat n") simp_all

lemma decimal_int_inj:
  assumes "decimal_int a = decimal_int b"
  shows "a = b"
proof -
  have neg_pos: "CHR ''-'' # decimal_nat x \<noteq> decimal_nat y" for x y
    using decimal_nat_hd_digit [of y] minus_not_digit by (metis list.sel(1))
  show ?thesis
  proof (cases "a < 0")
    case an: True
    show ?thesis
    proof (cases "b < 0")
      case True
      with an assms have "nat (- a) = nat (- b)"
        by (simp add: decimal_int_def decimal_nat_inj)
      with an True show ?thesis by simp
    next
      case False
      with an assms neg_pos show ?thesis by (simp add: decimal_int_def)
    qed
  next
    case ap: False
    show ?thesis
    proof (cases "b < 0")
      case True
      with ap assms neg_pos [of "nat (- b)" "nat a"] show ?thesis
        by (simp add: decimal_int_def)
    next
      case False
      with ap assms have "nat a = nat b"
        by (simp add: decimal_int_def decimal_nat_inj)
      with ap False show ?thesis by simp
    qed
  qed
qed

lemma decimal_int_no_underscore: "CHR ''_'' \<notin> set (decimal_int i)"
proof -
  have "CHR ''_'' \<notin> set (decimal_nat n)" for n
    using decimal_nat_digits [of n] underscore_not_digit by (auto simp: list_all_iff)
  then show ?thesis by (simp add: decimal_int_def)
qed

lemma takeWhile_to_underscore:
  "CHR ''_'' \<notin> set a \<Longrightarrow> takeWhile (\<lambda>c. c \<noteq> CHR ''_'') (a @ CHR ''_'' # b) = a"
  by (induction a) auto

lemma split_at_underscore:
  assumes "a @ CHR ''_'' # b = a' @ CHR ''_'' # b'"
    and "CHR ''_'' \<notin> set a" and "CHR ''_'' \<notin> set a'"
  shows "a = a' \<and> b = b'"
proof -
  have "takeWhile (\<lambda>c. c \<noteq> CHR ''_'') (a @ CHR ''_'' # b) = a"
    using assms(2) by (rule takeWhile_to_underscore)
  moreover have "takeWhile (\<lambda>c. c \<noteq> CHR ''_'') (a' @ CHR ''_'' # b') = a'"
    using assms(3) by (rule takeWhile_to_underscore)
  ultimately have "a = a'" using assms(1) by simp
  with assms(1) show ?thesis by simp
qed

lemma generate_client_order_id_inj:
  "generate_client_order_id sd1 e1 r1 = generate_client_order_id sd2 e2 r2
     \<longleftrightarrow> sd1 = sd2 \<and> e1 = e2 \<and> r1 = r2"
proof
  assume eq: "generate_client_order_id sd1 e1 r1 = generate_client_order_id sd2 e2 r2"
  then have sd: "sd1 = sd2"
    by (cases sd1; cases sd2) (simp_all add: generate_client_order_id_def)
  with eq have "decimal_int e1 @ CHR ''_'' # decimal_int r1 = decimal_int e2 @ CHR ''_'' # decimal_int r2"
    by (simp add: generate_client_order_id_def)
  then have "decimal_int e1 = decimal_int e2 \<and> decimal_int r1 = decimal_int r2"
    by (rule split_at_underscore) (rule decimal_int_no_underscore)+
  with sd show "sd1 = sd2 \<and> e1 = e2 \<and> r1 = r2"
    by (simp add: decimal_int_inj)
qed simp

section \<open>The order manager: gates, frame and accounting\<close>

text \<open>The equations that evaluate a concrete run of the manager.\<close>

lemmas manager_eval =
  update_orders_if_needed_def should_update_orders_def place_market_maker_orders_def
  place_order_def cancel_order_def update_metrics_def update_latency_def
  update_reaction_latency_def LatencyMetrics_init_def OrderManager_init_def default_config_def
  format_price_def cpp_round_def price_change_exceeds_def PRICE_CHANGE_THRESHOLD_def
  generate_client_order_id_def decimal_int_def digit_char_eval decimal_nat.simps
  seconds_def milliseconds_def to_milliseconds_def to_microseconds_def duration_div_def
  Let_def

text \<open>The first book of the scenarios and the venue's answers to it.\<close>

lemmas first_book_eval = env_accept_def venue_bid_def venue_ask_def manager0_def

lemma place_nonpositive:
  "mid \<le> 0 \<Longrightarrow> place_market_maker_orders mid obt env s = (False, s, [])"
  by (simp add: place_market_maker_orders_def)

lemma place_skip:
  "0 < mid \<Longrightarrow> active_bid_order s \<noteq> None \<Longrightarrow> active_ask_order s \<noteq> None
    \<Longrightarrow> \<not> price_change_exceeds mid (last_mid_price s)
    \<Longrightarrow> place_market_maker_orders mid obt env s = (True, s, [])"
  by (simp add: place_market_maker_orders_def Let_def)

lemma place_order_ops:
  "snd (snd (place_order sd p q e r res s)) =
     [Place_limit_order (symbol (config s)) sd p q (generate_client_order_id sd e r)]"
  by (simp add: place_order_def Let_def split: option.splits)

lemma place_order_frame:
  "config (fst (snd (place_order sd p q e r res s))) = config s"
  "last_mid_price (fst (snd (place_order sd p q e r res s))) = last_mid_price s"
  "last_order_update (fst (snd (place_order sd p q e r res s))) = last_order_update s"
  by (simp_all add: place_order_def Let_def split: option.splits)

lemma update_metrics_frame:
  "config (update_metrics a b c s) = config s"
  "last_mid_price (update_metrics a b c s) = last_mid_price s"
  "last_order_update (update_metrics a b c s) = last_order_update s"
  "active_bid_order (update_metrics a b c s) = active_bid_order s"
  "active_ask_order (update_metrics a b c s) = active_ask_order s"
  by (simp_all add: update_metrics_def Let_def)

lemma place_runs:
  assumes "place_gate_open mid s"
  shows "last_mid_price (fst (snd (place_market_maker_orders mid obt env s))) = mid"
    and "last_order_update (fst (snd (place_market_maker_orders mid obt env s))) = update_clock env"
    and "config (fst (snd (place_market_maker_orders mid obt env s))) = config s"
    and "total_attempted (snd (snd (place_market_maker_orders mid obt env s))) = 2"
  using assms unfolding place_gate_open_def
  by (auto simp add: place_market_maker_orders_def Let_def split_beta update_metrics_frame place_order_frame
      place_order_ops total_attempted_def cancel_order_def split: option.splits)

lemma place_no_ops_iff:
  "snd (snd (place_market_maker_orders mid obt env s)) = [] \<longleftrightarrow> \<not> place_gate_open mid s"
  unfolding place_gate_open_def
  by (auto simp add: place_market_maker_orders_def Let_def split_beta place_order_ops)

lemma place_closed:
  "\<not> place_gate_open mid s \<Longrightarrow> snd (place_market_maker_orders mid obt env s) = (s, [])"
  unfolding place_gate_open_def
  by (auto simp add: place_market_maker_orders_def Let_def)

lemma update_suppressed:
  "\<not> should_update_orders m now s \<Longrightarrow> update_orders_if_needed m obt now env s = (True, s, [])"
  by (simp add: update_orders_if_needed_def)

lemma update_ops_nonempty:
  assumes "snd (snd (update_orders_if_needed m obt now env s)) \<noteq> []"
  shows "should_update_orders m now s" and "place_gate_open m s"
    and "update_orders_if_needed m obt now env s = place_market_maker_orders m obt env s"
proof -
  show su: "should_update_orders m now s"
    using assms by (auto simp: update_orders_if_needed_def split: if_splits)
  then show eq: "update_orders_if_needed m obt now env s = place_market_maker_orders m obt env s"
    by (simp add: update_orders_if_needed_def)
  with assms show "place_gate_open m s"
    by (simp add: place_no_ops_iff)
qed

lemma same_mid_second_suppressed:
  "snd (snd (update_orders_if_needed m obt1 now1 env1 s)) = [] \<or>
   snd (snd (update_orders_if_needed m obt2 now2 env2
      (fst (snd (update_orders_if_needed m obt1 now1 env1 s))))) = []"
proof (cases "snd (snd (update_orders_if_needed m obt1 now1 env1 s)) = []")
  case True
  then show ?thesis by simp
next
  case False
  note run = update_ops_nonempty [OF False]
  have "last_mid_price (fst (snd (update_orders_if_needed m obt1 now1 env1 s))) = m"
    using run by (simp add: place_runs)
  then have "\<not> should_update_orders m now2 (fst (snd (update_orders_if_needed m obt1 now1 env1 s)))"
    by (simp add: should_update_orders_def)
  then show ?thesis by (simp add: update_suppressed)
qed

lemma hysteresis_not_exceeds:
  assumes "l \<noteq> 0" and "\<bar>m - l\<bar> / l < PRICE_CHANGE_THRESHOLD"
  shows "\<not> price_change_exceeds m l"
  using assms by (simp add: price_change_exceeds_def)

text \<open>
  Claim C3. With both legs active and a relative change of the mid against the last
  published mid below \<open>\<delta> = 1e-4\<close>, the reprice is a no-op: the manager is returned
  as it was and no cancel and no place is issued, through \<^verbatim>\<open>place_market_maker_orders\<close>
  and through \<^verbatim>\<open>update_orders_if_needed\<close> alike. And of two consecutive price updates
  with the same mid, from any state, at most one issues orders.
\<close>

theorem C3_hysteresis_gate:
  "(active_bid_order s \<noteq> None \<and> active_ask_order s \<noteq> None \<and> last_mid_price s \<noteq> 0
      \<and> \<bar>m - last_mid_price s\<bar> / last_mid_price s < PRICE_CHANGE_THRESHOLD
    \<longrightarrow> snd (place_market_maker_orders m obt env s) = (s, [])
        \<and> snd (update_orders_if_needed m obt now env s) = (s, []))
   \<and> (snd (snd (update_orders_if_needed m obt1 now1 env1 s0)) = [] \<or>
      snd (snd (update_orders_if_needed m obt2 now2 env2
        (fst (snd (update_orders_if_needed m obt1 now1 env1 s0))))) = [])"
proof (intro conjI impI)
  assume h: "active_bid_order s \<noteq> None \<and> active_ask_order s \<noteq> None \<and> last_mid_price s \<noteq> 0
      \<and> \<bar>m - last_mid_price s\<bar> / last_mid_price s < PRICE_CHANGE_THRESHOLD"
  then have "\<not> price_change_exceeds m (last_mid_price s)"
    by (simp add: hysteresis_not_exceeds)
  with h have closed: "\<not> place_gate_open m s"
    by (simp add: place_gate_open_def)
  then show "snd (place_market_maker_orders m obt env s) = (s, [])"
    by (rule place_closed)
  then show "snd (update_orders_if_needed m obt now env s) = (s, [])"
    by (simp add: update_orders_if_needed_def)
next
  show "snd (snd (update_orders_if_needed m obt1 now1 env1 s0)) = [] \<or>
      snd (snd (update_orders_if_needed m obt2 now2 env2
        (fst (snd (update_orders_if_needed m obt1 now1 env1 s0))))) = []"
    by (rule same_mid_second_suppressed)
qed

lemma manager_resting_eq:
  "manager_resting =
     \<lparr>config = default_config, active_bid_order = Some venue_bid,
      active_ask_order = Some venue_ask, last_mid_price = 50050,
      last_order_update = 1001000000,
      metrics = \<lparr>avg_order_latency_ms = 1, max_order_latency_ms = 1,
         min_order_latency_ms = 1, avg_reaction_latency_ms = 1 / 2,
         max_reaction_latency_ms = 1, min_reaction_latency_ms = 1,
         total_orders = 1, successful_orders = 2, failed_orders = 0,
         reconnect_count = 0, start_time = 0\<rparr>\<rparr>"
  unfolding manager_resting_def by (simp add: manager_eval first_book_eval)

lemma manager_rejected_eq:
  "manager_rejected =
     \<lparr>config = default_config, active_bid_order = None,
      active_ask_order = None, last_mid_price = 50050,
      last_order_update = 1001000000,
      metrics = \<lparr>avg_order_latency_ms = 1, max_order_latency_ms = 1,
         min_order_latency_ms = 1, avg_reaction_latency_ms = 1 / 2,
         max_reaction_latency_ms = 1, min_reaction_latency_ms = 1,
         total_orders = 1, successful_orders = 2, failed_orders = 2,
         reconnect_count = 0, start_time = 0\<rparr>\<rparr>"
  unfolding manager_rejected_def by (simp add: manager_eval first_book_eval env_reject_both_def)

text \<open>After the first book at mid 50050 both legs rest; a book at mid 50050.5 moves nothing.\<close>

theorem C3_hysteresis_gate_witness:
  "active_bid_order manager_resting \<noteq> None \<and> active_ask_order manager_resting \<noteq> None
   \<and> last_mid_price manager_resting \<noteq> 0
   \<and> \<bar>50050.5 - last_mid_price manager_resting\<bar> / last_mid_price manager_resting
        < PRICE_CHANGE_THRESHOLD
   \<and> snd (place_market_maker_orders 50050.5 (seconds 2) env_accept manager_resting)
        = (manager_resting, [])
   \<and> snd (update_orders_if_needed 50050.5 (seconds 2) (seconds 2) env_accept manager_resting)
        = (manager_resting, [])"
  using C3_hysteresis_gate [of manager_resting "50050.5" "seconds 2" env_accept "seconds 2"]
  by (simp add: manager_resting_eq PRICE_CHANGE_THRESHOLD_def)


lemma place_preserves_legs_priced:
  assumes "legs_priced s"
  shows "legs_priced (fst (snd (place_market_maker_orders m obt env s)))"
proof (cases "place_gate_open m s")
  case True
  then have "0 < m" by (simp add: place_gate_open_def)
  with True show ?thesis by (simp add: legs_priced_def place_runs)
next
  case False
  then show ?thesis using assms by (simp add: place_closed)
qed

lemma manager_step_legs_priced:
  assumes "legs_priced s"
  shows "legs_priced (fst (manager_step x s))"
proof (cases x)
  case (Update_orders_if_needed m obt now env)
  then show ?thesis
    using assms place_preserves_legs_priced [OF assms, of m obt env]
    by (simp add: update_orders_if_needed_def)
next
  case (Place_market_maker_orders m obt env)
  then show ?thesis using place_preserves_legs_priced [OF assms] by simp
next
  case (Cancel_all_active_orders b a)
  then show ?thesis by (simp add: cancel_all_active_orders_def legs_priced_def split_beta)
next
  case (Reset_metrics now)
  then show ?thesis using assms by (simp add: reset_metrics_def legs_priced_def)
qed

lemma run_session_legs_priced:
  "legs_priced s \<Longrightarrow> legs_priced (fst (run_session ops s))"
proof (induction ops arbitrary: s)
  case Nil
  then show ?case by simp
next
  case (Cons x ops)
  from Cons.prems have "legs_priced (fst (manager_step x s))"
    by (rule manager_step_legs_priced)
  then have "legs_priced (fst (run_session ops (fst (manager_step x s))))"
    by (rule Cons.IH)
  then show ?case by (simp add: split_beta)
qed

lemma init_legs_priced: "legs_priced (OrderManager_init cfg t0)"
  by (simp add: legs_priced_def OrderManager_init_def)

lemma below_threshold_positive:
  assumes "0 < l" and "\<bar>m - l\<bar> / l \<le> PRICE_CHANGE_THRESHOLD"
  shows "0 < m" and "\<not> price_change_exceeds m l"
proof -
  from assms have "\<bar>m - l\<bar> \<le> l / 10000"
    by (simp add: PRICE_CHANGE_THRESHOLD_def field_simps)
  with assms(1) show "0 < m" by linarith
  from assms show "\<not> price_change_exceeds m l"
    by (simp add: price_change_exceeds_def)
qed

text \<open>
  Claim C10. When \<^verbatim>\<open>update_orders_if_needed\<close> finds the mid unchanged or the cooldown
  running, and when a manager reached by any session of public operations holds both legs
  and the relative change of the mid is at most the hysteresis threshold, the entry points
  return true, the whole manager (both legs, last mid, last update time, every metric) is
  as before and no exchange operation is invoked.
\<close>

theorem C10_no_update_frame:
  "(\<bar>m - last_mid_price s\<bar> < 1 / 100000
      \<or> to_milliseconds (now - last_order_update s) < order_update_cooldown (config s)
    \<longrightarrow> update_orders_if_needed m obt now env s = (True, s, []))
   \<and> (let r = fst (run_session ops (OrderManager_init cfg t0)) in
        active_bid_order r \<noteq> None \<and> active_ask_order r \<noteq> None
          \<and> \<bar>m - last_mid_price r\<bar> / last_mid_price r \<le> PRICE_CHANGE_THRESHOLD
        \<longrightarrow> place_market_maker_orders m obt env r = (True, r, [])
            \<and> update_orders_if_needed m obt now env r = (True, r, []))"
proof (intro conjI)
  show "\<bar>m - last_mid_price s\<bar> < 1 / 100000
      \<or> to_milliseconds (now - last_order_update s) < order_update_cooldown (config s)
    \<longrightarrow> update_orders_if_needed m obt now env s = (True, s, [])"
    by (auto simp: update_orders_if_needed_def should_update_orders_def)
next
  define r where "r = fst (run_session ops (OrderManager_init cfg t0))"
  have inv: "legs_priced r"
    unfolding r_def by (rule run_session_legs_priced [OF init_legs_priced])
  have "place_market_maker_orders m obt env r = (True, r, [])
            \<and> update_orders_if_needed m obt now env r = (True, r, [])"
    if h: "active_bid_order r \<noteq> None \<and> active_ask_order r \<noteq> None
          \<and> \<bar>m - last_mid_price r\<bar> / last_mid_price r \<le> PRICE_CHANGE_THRESHOLD"
  proof -
    from h inv have pos: "0 < last_mid_price r" by (auto simp: legs_priced_def)
    from below_threshold_positive [OF pos] h
    have "0 < m" and "\<not> price_change_exceeds m (last_mid_price r)" by simp_all
    with h have skip: "place_market_maker_orders m obt env r = (True, r, [])"
      by (simp add: place_skip)
    then show ?thesis by (simp add: update_orders_if_needed_def)
  qed
  then show "let r = fst (run_session ops (OrderManager_init cfg t0)) in
        active_bid_order r \<noteq> None \<and> active_ask_order r \<noteq> None
          \<and> \<bar>m - last_mid_price r\<bar> / last_mid_price r \<le> PRICE_CHANGE_THRESHOLD
        \<longrightarrow> place_market_maker_orders m obt env r = (True, r, [])
            \<and> update_orders_if_needed m obt now env r = (True, r, [])"
    unfolding r_def Let_def by blast
qed

lemma first_session_resting:
  "fst (run_session [Update_orders_if_needed 50050 (seconds 1) (seconds 1) env_accept]
         (OrderManager_init default_config 0)) = manager_resting"
  by (simp add: manager_resting_def manager0_def split_beta)

theorem C10_no_update_frame_witness:
  "to_milliseconds (seconds 1 + milliseconds 51 - last_order_update manager_resting)
      < order_update_cooldown (config manager_resting)
   \<and> update_orders_if_needed 50100 (seconds 1 + milliseconds 51) (seconds 1 + milliseconds 51)
        env_accept manager_resting = (True, manager_resting, [])
   \<and> active_bid_order manager_resting \<noteq> None \<and> active_ask_order manager_resting \<noteq> None
   \<and> \<bar>50050.5 - last_mid_price manager_resting\<bar> / last_mid_price manager_resting
        \<le> PRICE_CHANGE_THRESHOLD
   \<and> place_market_maker_orders 50050.5 (seconds 2) env_accept manager_resting
        = (True, manager_resting, [])
   \<and> update_orders_if_needed 50050.5 (seconds 2) (seconds 2) env_accept manager_resting
        = (True, manager_resting, [])"
proof -
  have cool: "to_milliseconds (seconds 1 + milliseconds 51 - last_order_update manager_resting)
      < order_update_cooldown (config manager_resting)"
    by (simp add: manager_resting_eq default_config_def to_milliseconds_def duration_div_def
        seconds_def milliseconds_def)
  have legs: "active_bid_order manager_resting \<noteq> None \<and> active_ask_order manager_resting \<noteq> None
   \<and> \<bar>50050.5 - last_mid_price manager_resting\<bar> / last_mid_price manager_resting
        \<le> PRICE_CHANGE_THRESHOLD"
    by (simp add: manager_resting_eq PRICE_CHANGE_THRESHOLD_def)
  from C10_no_update_frame [where m = 50100 and s = manager_resting
      and now = "seconds 1 + milliseconds 51" and obt = "seconds 1 + milliseconds 51"
      and env = env_accept] cool
  have a: "update_orders_if_needed 50100 (seconds 1 + milliseconds 51) (seconds 1 + milliseconds 51)
        env_accept manager_resting = (True, manager_resting, [])"
    by blast
  from C10_no_update_frame [where m = "50050.5" and now = "seconds 2" and obt = "seconds 2"
      and env = env_accept and cfg = default_config and ?t0.0 = 0
      and ops = "[Update_orders_if_needed 50050 (seconds 1) (seconds 1) env_accept]"] legs
  have b: "place_market_maker_orders 50050.5 (seconds 2) env_accept manager_resting
        = (True, manager_resting, [])
   \<and> update_orders_if_needed 50050.5 (seconds 2) (seconds 2) env_accept manager_resting
        = (True, manager_resting, [])"
    unfolding first_session_resting Let_def by blast
  from cool a legs b show ?thesis by blast
qed


lemma to_milliseconds_less:
  assumes "0 \<le> d" and "d < milliseconds c"
  shows "to_milliseconds d < c"
proof -
  from assms(1) have "to_milliseconds d = d div 1000000"
    by (simp add: to_milliseconds_def duration_div_def)
  moreover from assms(2) have "d div 1000000 < c"
    unfolding milliseconds_def by presburger
  ultimately show ?thesis by simp
qed


lemma update_preserves_config:
  "config (fst (snd (update_orders_if_needed m obt now env s))) = config s"
proof (cases "snd (snd (update_orders_if_needed m obt now env s)) = []")
  case False
  note run = update_ops_nonempty [OF False]
  then show ?thesis by (simp add: place_runs)
next
  case True
  show ?thesis
  proof (cases "should_update_orders m now s")
    case su: True
    with True have "\<not> place_gate_open m s"
      by (simp add: update_orders_if_needed_def place_no_ops_iff)
    with su show ?thesis by (simp add: update_orders_if_needed_def place_closed)
  next
    case False
    then show ?thesis by (simp add: update_suppressed)
  qed
qed

text \<open>
  Claim C2, as amended. The cooldown gate suppresses a reprice whenever the time since the
  last order update is below the cooldown, whether or not an active pair exists. Of two
  updates less than one cooldown apart (the clock never running backwards) at most one
  issues orders.
\<close>

theorem C2_cooldown_gate:
  "(to_milliseconds (now - last_order_update s) < order_update_cooldown (config s)
    \<longrightarrow> update_orders_if_needed m obt now env s = (True, s, []))
   \<and> (now1 \<le> update_clock env1 \<and> update_clock env1 \<le> now2
        \<and> now2 - now1 < milliseconds (order_update_cooldown (config s0))
      \<longrightarrow> snd (snd (update_orders_if_needed m1 obt1 now1 env1 s0)) = [] \<or>
          snd (snd (update_orders_if_needed m2 obt2 now2 env2
            (fst (snd (update_orders_if_needed m1 obt1 now1 env1 s0))))) = [])"
proof (intro conjI impI)
  assume "to_milliseconds (now - last_order_update s) < order_update_cooldown (config s)"
  then show "update_orders_if_needed m obt now env s = (True, s, [])"
    by (simp add: update_orders_if_needed_def should_update_orders_def)
next
  let ?u1 = "update_orders_if_needed m1 obt1 now1 env1 s0"
  assume h: "now1 \<le> update_clock env1 \<and> update_clock env1 \<le> now2
        \<and> now2 - now1 < milliseconds (order_update_cooldown (config s0))"
  show "snd (snd ?u1) = [] \<or>
          snd (snd (update_orders_if_needed m2 obt2 now2 env2 (fst (snd ?u1)))) = []"
  proof (cases "snd (snd ?u1) = []")
    case True
    then show ?thesis by simp
  next
    case False
    note run = update_ops_nonempty [OF False]
    have upd: "last_order_update (fst (snd ?u1)) = update_clock env1"
      using run by (simp add: place_runs)
    have cfg: "config (fst (snd ?u1)) = config s0"
      by (rule update_preserves_config)
    from h have "0 \<le> now2 - update_clock env1"
      and "now2 - update_clock env1 < milliseconds (order_update_cooldown (config s0))"
      by linarith+
    then have "to_milliseconds (now2 - update_clock env1) < order_update_cooldown (config s0)"
      by (rule to_milliseconds_less)
    then have "\<not> should_update_orders m2 now2 (fst (snd ?u1))"
      by (simp add: should_update_orders_def upd cfg)
    then show ?thesis by (simp add: update_suppressed)
  qed
qed

theorem C2_cooldown_gate_witness:
  "to_milliseconds (seconds 1 + milliseconds 51 - last_order_update manager_rejected)
      < order_update_cooldown (config manager_rejected)
   \<and> update_orders_if_needed 50100 (seconds 1 + milliseconds 51) (seconds 1 + milliseconds 51)
        env_accept manager_rejected = (True, manager_rejected, [])
   \<and> seconds 1 \<le> update_clock env_accept
   \<and> update_clock env_accept \<le> seconds 1 + milliseconds 51
   \<and> seconds 1 + milliseconds 51 - seconds 1 < milliseconds (order_update_cooldown (config manager0))
   \<and> snd (snd (update_orders_if_needed 50100 (seconds 1 + milliseconds 51)
        (seconds 1 + milliseconds 51) env_accept manager_resting)) = []"
proof -
  have cool: "to_milliseconds (seconds 1 + milliseconds 51 - last_order_update manager_rejected)
      < order_update_cooldown (config manager_rejected)"
    by (simp add: manager_rejected_eq default_config_def to_milliseconds_def duration_div_def
        seconds_def milliseconds_def)
  have clocks: "seconds 1 \<le> update_clock env_accept
     \<and> update_clock env_accept \<le> seconds 1 + milliseconds 51
     \<and> seconds 1 + milliseconds 51 - seconds 1 < milliseconds (order_update_cooldown (config manager0))"
    by (simp add: env_accept_def manager0_def OrderManager_init_def default_config_def
        seconds_def milliseconds_def)
  have placed: "snd (snd (update_orders_if_needed 50050 (seconds 1) (seconds 1) env_accept manager0)) \<noteq> []"
    by (simp add: manager_eval first_book_eval)
  note inst = C2_cooldown_gate [where s = manager_rejected and now = "seconds 1 + milliseconds 51"
      and m = 50100 and obt = "seconds 1 + milliseconds 51" and env = env_accept
      and ?s0.0 = manager0 and ?now1.0 = "seconds 1" and ?env1.0 = env_accept
      and ?now2.0 = "seconds 1 + milliseconds 51" and ?m1.0 = 50050 and ?obt1.0 = "seconds 1"
      and ?m2.0 = 50100 and ?obt2.0 = "seconds 1 + milliseconds 51" and ?env2.0 = env_accept]
  from inst cool have a: "update_orders_if_needed 50100 (seconds 1 + milliseconds 51)
      (seconds 1 + milliseconds 51) env_accept manager_rejected = (True, manager_rejected, [])"
    by blast
  from inst clocks placed have b: "snd (snd (update_orders_if_needed 50100 (seconds 1 + milliseconds 51)
        (seconds 1 + milliseconds 51) env_accept manager_resting)) = []"
    unfolding manager_resting_def by blast
  from cool a clocks b show ?thesis by blast
qed

text \<open>
  Claim C2 as stated fails. After a run in which the venue rejected both legs no pair is
  active; an update with a new mid 50 ms later is suppressed all the same, and it is the
  cooldown that suppresses it: one second later the same update places both legs.
\<close>

theorem C2_cooldown_gate_counterexample:
  "active_bid_order manager_rejected = None \<and> active_ask_order manager_rejected = None
   \<and> to_milliseconds (seconds 1 + milliseconds 51 - last_order_update manager_rejected)
        < order_update_cooldown (config manager_rejected)
   \<and> update_orders_if_needed 50100 (seconds 1 + milliseconds 51) (seconds 1 + milliseconds 51)
        env_accept manager_rejected = (True, manager_rejected, [])
   \<and> total_attempted (snd (snd (update_orders_if_needed 50100 (seconds 2) (seconds 2)
        env_accept manager_rejected))) = 2"
  by (simp add: manager_rejected_eq manager_eval first_book_eval total_attempted_def)

text \<open>
  Claim C1 fails on the code. In a session of one reprice in which the venue rejects the
  bid and accepts the ask, two orders were attempted, yet \<^verbatim>\<open>update_metrics\<close> counts two
  successes on top of the failure counted by \<^verbatim>\<open>place_order\<close>: the counters sum to
  three. \<^verbatim>\<open>LatencyMetrics\<close> has no counter of validation rejections.
\<close>

theorem C1_metrics_failing_session:
  "(let (s, tr) = run_session
        [Update_orders_if_needed 50050 (seconds 1) (seconds 1) env_reject_bid] manager0
    in successful_orders (metrics s) = 2 \<and> failed_orders (metrics s) = 1
       \<and> total_attempted tr = 2)"
  by (simp add: manager_eval first_book_eval env_reject_bid_def total_attempted_def)

section \<open>Client order ids of a session\<close>

text \<open>
  Claim C9, as amended. A client order id is \<open>MM_\<close>, the side tag \<open>BID\<close> or \<open>ASK\<close>,
  the decimal count of the system clock and the decimal random draw, joined by
  underscores; the clock count of a time after the epoch is a string of digits and a draw
  between 100000 and 999999 is six digits. Two ids are equal exactly when side, clock
  count and draw are all equal: nothing else keeps the ids of a session apart.
\<close>

theorem C9_client_order_id:
  "generate_client_order_id sd e r
      = ''MM_'' @ side_tag sd @ ''_'' @ decimal_int e @ ''_'' @ decimal_int r
   \<and> (side_tag sd = ''BID'' \<or> side_tag sd = ''ASK'')
   \<and> (0 \<le> e \<longrightarrow> list_all is_digit (decimal_int e))
   \<and> (100000 \<le> r \<and> r \<le> 999999
        \<longrightarrow> length (decimal_int r) = 6 \<and> list_all is_digit (decimal_int r))
   \<and> (generate_client_order_id sd1 e1 r1 = generate_client_order_id sd2 e2 r2
        \<longleftrightarrow> sd1 = sd2 \<and> e1 = e2 \<and> r1 = r2)"
proof (intro conjI impI)
  show "generate_client_order_id sd e r
      = ''MM_'' @ side_tag sd @ ''_'' @ decimal_int e @ ''_'' @ decimal_int r"
    by (simp add: generate_client_order_id_def side_tag_def)
  show "side_tag sd = ''BID'' \<or> side_tag sd = ''ASK''"
    by (simp add: side_tag_def)
  show "list_all is_digit (decimal_int e)" if "0 \<le> e"
    using that by (simp add: decimal_int_def decimal_nat_digits)
  show "generate_client_order_id sd1 e1 r1 = generate_client_order_id sd2 e2 r2
        \<longleftrightarrow> sd1 = sd2 \<and> e1 = e2 \<and> r1 = r2"
    by (rule generate_client_order_id_inj)
next
  assume r: "100000 \<le> r \<and> r \<le> 999999"
  then have eq: "decimal_int r = decimal_nat (nat r)"
    by (simp add: decimal_int_def)
  from r have "100000 \<le> nat r" "nat r < 1000000" by linarith+
  then have "10 ^ 5 \<le> nat r" "nat r < 10 ^ Suc 5" by simp_all
  then have "length (decimal_nat (nat r)) = Suc 5" by (rule decimal_nat_length)
  with eq show "length (decimal_int r) = 6" by simp
  from eq show "list_all is_digit (decimal_int r)" by (simp add: decimal_nat_digits)
qed

theorem C9_client_order_id_witness:
  "generate_client_order_id BUY 1700000000000000000 123456 = ''MM_BID_1700000000000000000_123456''
   \<and> (0::int) \<le> 1700000000000000000
   \<and> list_all is_digit (decimal_int 1700000000000000000)
   \<and> (100000::int) \<le> 123456 \<and> (123456::int) \<le> 999999
   \<and> length (decimal_int 123456) = 6 \<and> list_all is_digit (decimal_int 123456)
   \<and> generate_client_order_id BUY 1700000000000000000 123456
        \<noteq> generate_client_order_id BUY 1700000000000000000 123457"
proof -
  have d: "decimal_int 1700000000000000000 = ''1700000000000000000''"
    "decimal_int 123456 = ''123456''"
    by (simp_all add: decimal_int_def decimal_nat.simps digit_char_eval)
  note inst = C9_client_order_id [of BUY 1700000000000000000 123456 BUY 1700000000000000000
      123456 BUY 1700000000000000000 123457]
  have e: "(0::int) \<le> 1700000000000000000" by simp
  have r: "(100000::int) \<le> 123456 \<and> (123456::int) \<le> 999999" by simp
  from inst have "generate_client_order_id BUY 1700000000000000000 123456
      = ''MM_'' @ side_tag BUY @ ''_'' @ decimal_int 1700000000000000000 @ ''_'' @ decimal_int 123456"
    by (rule conjunct1)
  then have fmt: "generate_client_order_id BUY 1700000000000000000 123456
      = ''MM_BID_1700000000000000000_123456''"
    by (simp add: d side_tag_def)
  from inst e have ts: "list_all is_digit (decimal_int 1700000000000000000)" by blast
  from inst r have sfx: "length (decimal_int 123456) = 6 \<and> list_all is_digit (decimal_int 123456)"
    by blast
  have ne: "generate_client_order_id BUY 1700000000000000000 123456
        \<noteq> generate_client_order_id BUY 1700000000000000000 123457"
    using inst [THEN conjunct2, THEN conjunct2, THEN conjunct2, THEN conjunct2] by simp
  from fmt e ts r sfx ne show ?thesis by blast
qed

text \<open>
  Claim C9 as stated fails: in a session of two reprices whose bid legs read the same
  clock count and draw the same number, two orders carry the same client order id.
\<close>

theorem C9_client_order_id_counterexample:
  "\<not> distinct (placed_ids (snd (run_session colliding_session manager0)))"
  by (simp add: colliding_session_def env_same_tick_def manager_eval first_book_eval)

section \<open>The order-book decoder\<close>

text \<open>
  Claim C4, as amended. A payload whose bid side or ask side is empty after parsing raises
  no price-change notification and leaves the published mid as it was (the book itself is
  stored). A payload with both sides is never rejected, crossed or not: the mid becomes
  the mean of the first bid and the first ask, and the notification is raised exactly when
  that differs from the previous mid by more than \<open>1e-5\<close>.
\<close>

theorem C4_book_update:
  "(parse_levels bs = Some bl \<and> parse_levels as = Some al \<and> (bl = [] \<or> al = [])
     \<longrightarrow> snd (process_binance_orderbook (Document (Some bs) (Some as)) now (ex, mm))
          = (mm\<lparr>bot_orderbook := \<lparr>bids = bl, asks = al, timestamp = 0\<rparr>,
                  last_orderbook_time := now\<rparr>, False))
   \<and> (parse_levels bs = Some (b # bl') \<and> parse_levels as = Some (a # al')
     \<longrightarrow> (let (ex', mm', notified) =
               process_binance_orderbook (Document (Some bs) (Some as)) now (ex, mm)
          in current_mid_price mm' = (price b + price a) / 2
             \<and> notified = (\<bar>current_mid_price mm - (price b + price a) / 2\<bar> > 1 / 100000)
             \<and> price_changed mm' = (price_changed mm \<or> notified)))"
proof (intro conjI impI)
  assume "parse_levels bs = Some bl \<and> parse_levels as = Some al \<and> (bl = [] \<or> al = [])"
  then show "snd (process_binance_orderbook (Document (Some bs) (Some as)) now (ex, mm))
          = (mm\<lparr>bot_orderbook := \<lparr>bids = bl, asks = al, timestamp = 0\<rparr>,
                  last_orderbook_time := now\<rparr>, False)"
    by (auto simp: process_binance_orderbook_def handle_orderbook_update_def
        update_mid_price_def Let_def split: list.splits)
next
  assume "parse_levels bs = Some (b # bl') \<and> parse_levels as = Some (a # al')"
  then show "let (ex', mm', notified) =
               process_binance_orderbook (Document (Some bs) (Some as)) now (ex, mm)
          in current_mid_price mm' = (price b + price a) / 2
             \<and> notified = (\<bar>current_mid_price mm - (price b + price a) / 2\<bar> > 1 / 100000)
             \<and> price_changed mm' = (price_changed mm \<or> notified)"
    by (simp add: process_binance_orderbook_def handle_orderbook_update_def
        update_mid_price_def Let_def)
qed

text \<open>
  Claim C4 as stated fails: a crossed payload (best bid 50100, best ask 50000) is stored,
  moves the mid from 50000 to 50050 and raises the notification.
\<close>

theorem C4_book_update_counterexample:
  "(let (ex', mm', notified) = process_binance_orderbook crossed_document (seconds 1) (empty_book, bot0)
    in crossed ex' \<and> notified \<and> current_mid_price mm' = 50050 \<and> current_mid_price bot0 = 50000)"
  by (simp add: process_binance_orderbook_def handle_orderbook_update_def
        update_mid_price_def Let_def crossed_document_def crossed_def bot0_def)


text \<open>A payload without asks, and the first book of the scenarios.\<close>

theorem C4_book_update_witness:
  "parse_levels [Entry_levels 50100 1] = Some [\<lparr>price = 50100, quantity = 1\<rparr>]
   \<and> parse_levels [] = Some []
   \<and> snd (process_binance_orderbook one_sided_document (seconds 1) (empty_book, bot0))
        = (bot0\<lparr>bot_orderbook := \<lparr>bids = [\<lparr>price = 50100, quantity = 1\<rparr>], asks = [],
                                     timestamp = 0\<rparr>,
                 last_orderbook_time := seconds 1\<rparr>, False)
   \<and> parse_levels [Entry_levels 50000 1] = Some [\<lparr>price = 50000, quantity = 1\<rparr>]
   \<and> snd (snd (process_binance_orderbook first_document (seconds 1) (empty_book, bot0)))
   \<and> current_mid_price (fst (snd (process_binance_orderbook first_document (seconds 1)
         (empty_book, bot0)))) = 50050"
proof -
  have p: "parse_levels [Entry_levels 50100 1] = Some [\<lparr>price = 50100, quantity = 1\<rparr>]"
    "parse_levels [] = Some []"
    "parse_levels [Entry_levels 50000 1] = Some [\<lparr>price = 50000, quantity = 1\<rparr>]"
    by simp_all
  note one = C4_book_update [where bs = "[Entry_levels 50100 1]" and as = "[]"
      and bl = "[\<lparr>price = 50100, quantity = 1\<rparr>]" and al = "[]" and now = "seconds 1"
      and ex = empty_book and mm = bot0, THEN conjunct1]
  note two = C4_book_update [where bs = "[Entry_levels 50000 1]" and as = "[Entry_levels 50100 1]"
      and b = "\<lparr>price = 50000, quantity = 1\<rparr>" and bl' = "[]"
      and a = "\<lparr>price = 50100, quantity = 1\<rparr>" and al' = "[]" and now = "seconds 1"
      and ex = empty_book and mm = bot0, THEN conjunct2]
  from one p have a: "snd (process_binance_orderbook one_sided_document (seconds 1) (empty_book, bot0))
        = (bot0\<lparr>bot_orderbook := \<lparr>bids = [\<lparr>price = 50100, quantity = 1\<rparr>], asks = [],
                                     timestamp = 0\<rparr>,
                 last_orderbook_time := seconds 1\<rparr>, False)"
    by (simp add: one_sided_document_def)
  from two p have b: "snd (snd (process_binance_orderbook first_document (seconds 1) (empty_book, bot0)))
     \<and> current_mid_price (fst (snd (process_binance_orderbook first_document (seconds 1)
         (empty_book, bot0)))) = 50050"
    by (simp add: first_document_def split_beta bot0_def)
  from p a b show ?thesis by blast
qed

section \<open>The trading client: shutdown\<close>

lemma fail_pending_ok:
  assumes "distinct rids"
    and "list_all (\<lambda>rid. case objs rid of None \<Rightarrow> False | Some r \<Rightarrow> waiting r \<and> promise r = None) rids"
  shows "\<exists>objs'. fail_pending rids objs = Inr objs'
           \<and> (\<forall>rid r. rid \<in> set rids \<and> objs rid = Some r
                 \<longrightarrow> objs' rid = Some (r\<lparr>promise := Some connection_closed\<rparr>))
           \<and> (\<forall>rid. rid \<notin> set rids \<longrightarrow> objs' rid = objs rid)"
  using assms
proof (induction rids arbitrary: objs)
  case Nil
  then show ?case by simp
next
  case (Cons rid rids)
  from Cons.prems(2) obtain r where r: "objs rid = Some r" "waiting r" "promise r = None"
    by (auto split: option.splits)
  let ?r' = "r\<lparr>promise := Some connection_closed\<rparr>"
  let ?objs1 = "objs(rid \<mapsto> ?r')"
  from Cons.prems(1) have fresh: "rid \<notin> set rids" and d: "distinct rids" by simp_all
  from Cons.prems(2) fresh
  have "list_all (\<lambda>x. case ?objs1 x of None \<Rightarrow> False | Some r \<Rightarrow> waiting r \<and> promise r = None) rids"
    by (auto simp: list_all_iff)
  from Cons.IH [OF d this] obtain objs' where rest: "fail_pending rids ?objs1 = Inr objs'"
    "\<forall>x q. x \<in> set rids \<and> ?objs1 x = Some q \<longrightarrow> objs' x = Some (q\<lparr>promise := Some connection_closed\<rparr>)"
    "\<forall>x. x \<notin> set rids \<longrightarrow> objs' x = ?objs1 x"
    by blast
  from r rest(1) have run: "fail_pending (rid # rids) objs = Inr objs'"
    by (simp add: set_value_def)
  from rest(3) fresh have here: "objs' rid = Some ?r'" by simp
  have swept: "\<forall>x q. x \<in> set (rid # rids) \<and> objs x = Some q
      \<longrightarrow> objs' x = Some (q\<lparr>promise := Some connection_closed\<rparr>)"
  proof (intro allI impI)
    fix x q
    assume a: "x \<in> set (rid # rids) \<and> objs x = Some q"
    show "objs' x = Some (q\<lparr>promise := Some connection_closed\<rparr>)"
    proof (cases "x = rid")
      case True
      with a r(1) here show ?thesis by simp
    next
      case False
      with a have "x \<in> set rids \<and> ?objs1 x = Some q" by simp
      with rest(2) show ?thesis by blast
    qed
  qed
  have kept: "\<forall>x. x \<notin> set (rid # rids) \<longrightarrow> objs' x = objs x"
    using rest(3) by auto
  from run swept kept show ?case by blast
qed

lemma init_table_ok: "table_ok TradingClient_init"
  by (simp add: table_ok_def TradingClient_init_def)

lemma client_step_table_ok:
  assumes "table_ok c" and "client_step e c = Inr c'"
  shows "table_ok c'"
proof (cases e)
  case Start_connect
  with assms show ?thesis by (auto simp: table_ok_def start_connect_def split: if_splits)
next
  case On_open
  with assms show ?thesis by (auto simp: table_ok_def on_open_def split: if_splits)
next
  case On_close
  with assms show ?thesis by (auto simp: table_ok_def on_close_def split: if_splits)
next
  case Connected_test
  with assms show ?thesis by (auto simp: table_ok_def split: if_splits)
next
  case (Insert_request meth now)
  with assms show ?thesis
    by (auto simp: table_ok_def insert_request_def table_insert_def Let_def list_all_iff
        split: if_splits)
next
  case (Send_failed rid)
  with assms show ?thesis
    by (auto simp: table_ok_def send_failed_def list_all_iff distinct_removeAll)
next
  case (Request_timeout rid)
  with assms show ?thesis
    by (auto simp: table_ok_def request_timeout_def list_all_iff distinct_removeAll
        split: option.splits)
next
  case (Message rid response)
  with assms show ?thesis
    by (auto simp: table_ok_def process_message_def set_value_def list_all_iff distinct_removeAll
        split: if_splits option.splits sum.splits)
next
  case Disconnect_begin
  with assms show ?thesis
    by (auto simp: table_ok_def disconnect_begin_def split: if_splits)
next
  case Disconnect_join
  with assms show ?thesis
    by (auto simp: table_ok_def disconnect_join_def split: if_splits)
next
  case Disconnect_sweep
  with assms show ?thesis
    by (auto simp: table_ok_def disconnect_sweep_def split: if_splits sum.splits)
qed

lemma run_client_table_ok:
  "table_ok c \<Longrightarrow> run_client es c = Inr c' \<Longrightarrow> table_ok c'"
proof (induction es arbitrary: c)
  case Nil
  then show ?case by simp
next
  case (Cons e es)
  from Cons.prems(2) obtain c1 where step: "client_step e c = Inr c1" and rest: "run_client es c1 = Inr c'"
    by (auto split: sum.splits)
  from Cons.prems(1) step have "table_ok c1" by (rule client_step_table_ok)
  from this rest show ?case by (rule Cons.IH)
qed

text \<open>
  What the sweep does when it runs: in every state that a schedule reaches it raises no
  promise error, gives every request of the table the \<open>Connection closed\<close> error and
  leaves the table empty at the end of its critical section.
\<close>

lemma sweep_completes_table:
  assumes "run_client es TradingClient_init = Inr c"
  shows "\<exists>c'. disconnect_sweep c = Inr c' \<and> pending_requests c' = []
           \<and> (\<forall>rid r. rid \<in> set (pending_requests c) \<and> request_objects c rid = Some r
                 \<longrightarrow> request_objects c' rid
                     = Some (r\<lparr>promise := Some (JObject [(''error'', JString ''Connection closed'')])\<rparr>))"
proof -
  from init_table_ok assms have "table_ok c" by (rule run_client_table_ok)
  then have "distinct (pending_requests c)"
    and "list_all (\<lambda>rid. case request_objects c rid of None \<Rightarrow> False
                        | Some r \<Rightarrow> waiting r \<and> promise r = None) (pending_requests c)"
    by (simp_all add: table_ok_def)
  from fail_pending_ok [OF this] obtain objs'
    where "fail_pending (pending_requests c) (request_objects c) = Inr objs'"
      and "\<forall>rid r. rid \<in> set (pending_requests c) \<and> request_objects c rid = Some r
                 \<longrightarrow> objs' rid = Some (r\<lparr>promise := Some connection_closed\<rparr>)"
    by blast
  then show ?thesis
    by (simp add: disconnect_sweep_def connection_closed_def)
qed


section \<open>Request signing\<close>

lemma build_query_loop_spec:
  "build_query_loop first ss params =
     ss @ (if params = [] then [] else (if first then [] else ''&'') @ spec_query_string params)"
proof (induction params arbitrary: first ss)
  case Nil
  then show ?case by simp
next
  case (Cons p params)
  obtain k v where p: "p = (k, v)" by (cases p)
  show ?case
  proof (cases params)
    case Nil
    with p show ?thesis by simp
  next
    case (Cons q rest)
    with p Cons.IH [of False] show ?thesis by simp
  qed
qed

lemma build_query_string_spec: "build_query_string params = spec_query_string params"
  by (simp add: build_query_string_def build_query_loop_spec)

lemma params_query_loop_scalar:
  "list_all (\<lambda>m. scalar (snd m)) ms \<Longrightarrow>
     params_query_loop first qs ms = Some (build_query_loop first qs (member_strings ms))"
proof (induction ms arbitrary: first qs)
  case Nil
  then show ?case by (simp add: member_strings_def)
next
  case (Cons m ms)
  obtain k v where m: "m = (k, v)" by (cases m)
  with Cons.prems obtain sv where sv: "asString v = Some sv"
    by (auto simp: scalar_def)
  from Cons.prems have "list_all (\<lambda>m. scalar (snd m)) ms" by simp
  then have "params_query_loop False (qs @ (if first then [] else ''&'') @ k @ ''='' @ sv) ms
      = Some (build_query_loop False (qs @ (if first then [] else ''&'') @ k @ ''='' @ sv)
          (member_strings ms))"
    by (rule Cons.IH)
  with m sv show ?case by (simp add: member_strings_def)
qed

lemma hex_digit_lower: "is_lower_hex (hex_digit d)"
proof -
  have "d mod 16 < length ''0123456789abcdef''" by simp
  then have "''0123456789abcdef'' ! (d mod 16) \<in> set ''0123456789abcdef''"
    by (rule nth_mem)
  then show ?thesis by (simp only: is_lower_hex_def hex_digit_def)
qed

declare hex_nat.simps [simp del]

lemma hex_nat_byte:
  assumes "n < 256"
  shows "setw2_fill0 (hex_nat n) = [hex_digit (n div 16), hex_digit (n mod 16)]"
proof (cases "n < 16")
  case True
  then have "hex_nat n = [hex_digit n]" by (simp add: hex_nat.simps [of n])
  with True show ?thesis by (simp add: setw2_fill0_def hex_digit_def)
next
  case False
  from assms have small: "n div 16 < 16" by simp
  then have "hex_nat (n div 16) = [hex_digit (n div 16)]"
    by (simp add: hex_nat.simps [of "n div 16"])
  with False have "hex_nat n = [hex_digit (n div 16), hex_digit (n mod 16)]"
    by (simp add: hex_nat.simps [of n])
  then show ?thesis by (simp add: setw2_fill0_def)
qed

lemma byte_hex: "setw2_fill0 (hex_nat (unat (b :: byte))) = [hex_digit (unat b div 16), hex_digit (unat b mod 16)]"
proof -
  have "unat b < 2 ^ LENGTH(8)" by (rule unsigned_less)
  then have "unat b < 256" by simp
  then show ?thesis by (rule hex_nat_byte)
qed

lemma digest_hex_length: "length (digest_hex d) = 2 * length d"
  unfolding digest_hex_def by (induction d) (simp_all add: byte_hex)

lemma digest_hex_lower: "list_all is_lower_hex (digest_hex d)"
  unfolding digest_hex_def by (induction d) (simp_all add: byte_hex hex_digit_lower)

lemma obj_set_keys: "set (map fst (obj_set k v ms)) = insert k (set (map fst ms))"
proof (induction ms)
  case Nil
  then show ?case by simp
next
  case (Cons m ms)
  obtain k' v' where m: "m = (k', v')" by (cases m)
  show ?case
  proof (cases "k = k'")
    case True
    with m show ?thesis by simp
  next
    case ne: False
    show ?thesis
    proof (cases "string_less k k'")
      case True
      with ne m show ?thesis by simp
    next
      case False
      with ne m Cons.IH show ?thesis by (simp add: insert_commute)
    qed
  qed
qed

lemma obj_set_lookup: "map_of (obj_set k v ms) k = Some v"
proof (induction ms)
  case Nil
  then show ?case by simp
next
  case (Cons m ms)
  obtain k' v' where m: "m = (k', v')" by (cases m)
  with Cons.IH show ?case by simp
qed

lemma obj_set_scalar:
  "scalar v \<Longrightarrow> list_all (\<lambda>m. scalar (snd m)) ms \<Longrightarrow> list_all (\<lambda>m. scalar (snd m)) (obj_set k v ms)"
proof (induction ms)
  case Nil
  then show ?case by simp
next
  case (Cons m ms)
  obtain k' v' where m: "m = (k', v')" by (cases m)
  with Cons show ?case by simp
qed


text \<open>
  Claim C6. In the HTTP variant the query string sent is the parameters followed by the
  millisecond timestamp, written \<open>key=value\<close> and joined by \<open>&\<close> exactly as the caller
  formatted them, followed by \<open>&signature=\<close> and the hex digest of the HMAC, keyed by the
  API secret, of that same string without the signature. The hex digest is two lowercase
  hex characters per byte. In the stream variant, for parameters that are strings or
  integers and hold no \<open>signature\<close> member, the request carries the parameters with
  \<open>apiKey\<close> and \<open>timestamp\<close> added and a \<open>signature\<close> member that is the hex digest of
  the HMAC of the \<open>key=value\<close> string of those members, the signature itself excluded.
\<close>

theorem C6_signature:
  "signed_query_string hmac api_secret pairs ts
     = spec_query_string (pairs @ [(''timestamp'', decimal_int ts)]) @ ''&signature=''
         @ digest_hex (hmac api_secret
             (spec_query_string (pairs @ [(''timestamp'', decimal_int ts)])))
   \<and> list_all is_lower_hex (digest_hex (hmac api_secret q))
   \<and> length (digest_hex (hmac api_secret q)) = 2 * length (hmac api_secret q)
   \<and> (list_all (\<lambda>m. scalar (snd m)) params \<and> ''signature'' \<notin> set (map fst params)
      \<longrightarrow> (let signed_params = obj_set ''timestamp'' (JInt64 ts)
                                  (obj_set ''apiKey'' (JString api_key) params)
           in create_signed_request hmac api_key api_secret n ts meth params
                = Some \<lparr>request_id = generate_request_id n, request_method = meth,
                        request_params =
                          obj_set ''signature''
                            (JString (digest_hex (hmac api_secret
                               (spec_query_string (member_strings signed_params)))))
                            signed_params\<rparr>
              \<and> map_of signed_params ''timestamp'' = Some (JInt64 ts)
              \<and> ''signature'' \<notin> set (map fst signed_params)))"
proof (intro conjI impI)
  show "signed_query_string hmac api_secret pairs ts
     = spec_query_string (pairs @ [(''timestamp'', decimal_int ts)]) @ ''&signature=''
         @ digest_hex (hmac api_secret
             (spec_query_string (pairs @ [(''timestamp'', decimal_int ts)])))"
    by (simp add: signed_query_string_def Let_def generate_signature_def
        build_query_string_spec)
  show "list_all is_lower_hex (digest_hex (hmac api_secret q))"
    by (rule digest_hex_lower)
  show "length (digest_hex (hmac api_secret q)) = 2 * length (hmac api_secret q)"
    by (rule digest_hex_length)
next
  let ?sp = "obj_set ''timestamp'' (JInt64 ts) (obj_set ''apiKey'' (JString api_key) params)"
  assume h: "list_all (\<lambda>m. scalar (snd m)) params \<and> ''signature'' \<notin> set (map fst params)"
  have "scalar (JString api_key)" "scalar (JInt64 ts)" by (simp_all add: scalar_def)
  with h have "list_all (\<lambda>m. scalar (snd m)) ?sp"
    by (intro obj_set_scalar) simp_all
  then have "params_query_loop True [] ?sp = Some (build_query_loop True [] (member_strings ?sp))"
    by (rule params_query_loop_scalar)
  then have loop: "params_query_loop True [] ?sp = Some (spec_query_string (member_strings ?sp))"
    by (simp add: build_query_string_spec [unfolded build_query_string_def])
  have req: "create_signed_request hmac api_key api_secret n ts meth params
                = Some \<lparr>request_id = generate_request_id n, request_method = meth,
                        request_params =
                          obj_set ''signature''
                            (JString (digest_hex (hmac api_secret
                               (spec_query_string (member_strings ?sp)))))
                            ?sp\<rparr>"
    by (simp add: create_signed_request_def Let_def loop generate_signature_def)
  have ts: "map_of ?sp ''timestamp'' = Some (JInt64 ts)"
    by (rule obj_set_lookup)
  from h have nosig: "''signature'' \<notin> set (map fst ?sp)"
    by (simp only: obj_set_keys) simp
  from req ts nosig
  show "let signed_params = ?sp
        in create_signed_request hmac api_key api_secret n ts meth params
                = Some \<lparr>request_id = generate_request_id n, request_method = meth,
                        request_params =
                          obj_set ''signature''
                            (JString (digest_hex (hmac api_secret
                               (spec_query_string (member_strings signed_params)))))
                            signed_params\<rparr>
              \<and> map_of signed_params ''timestamp'' = Some (JInt64 ts)
              \<and> ''signature'' \<notin> set (map fst signed_params)"
    by (simp only: Let_def) blast
qed


lemma signed_place_params:
  "obj_set ''timestamp'' (JInt64 1700000000000) (obj_set ''apiKey'' (JString ''key'') place_params)
     = [(''apiKey'', JString ''key''), (''price'', JString ''49049.00''),
        (''quantity'', JString ''0.00100''), (''side'', JString ''BUY''),
        (''symbol'', JString ''BTCUSDT''), (''timeInForce'', JString ''GTC''),
        (''timestamp'', JInt64 1700000000000), (''type'', JString ''LIMIT'')]"
  unfolding place_params_def by code_simp

lemma decimal_timestamp: "decimal_int 1700000000000 = ''1700000000000''"
  by (simp add: decimal_int_def decimal_nat.simps digit_char_eval)

lemma digest_hex_eval:
  "digest_hex [6, 106, 171] = ''066aab''" "digest_hex [6, 117, 171] = ''0675ab''"
  by (simp_all add: digest_hex_def setw2_fill0_def hex_nat.simps hex_digit_def)

text \<open>A bid of 0.00100 at 49049.00 through both variants, with a stand-in digest.\<close>

theorem C6_signature_witness:
  "signed_query_string toy_hmac ''secret'' place_pairs 1700000000000
     = ''symbol=BTCUSDT&side=BUY&type=LIMIT&timeInForce=GTC&quantity=0.00100&price=49049.00&timestamp=1700000000000&signature=066aab''
   \<and> list_all (\<lambda>m. scalar (snd m)) place_params
   \<and> ''signature'' \<notin> set (map fst place_params)
   \<and> create_signed_request toy_hmac ''key'' ''secret'' 7 1700000000000 ''order.place'' place_params
       = Some \<lparr>request_id = ''req_7'', request_method = ''order.place'',
               request_params =
                 [(''apiKey'', JString ''key''), (''price'', JString ''49049.00''),
                  (''quantity'', JString ''0.00100''), (''side'', JString ''BUY''),
                  (''signature'', JString ''0675ab''), (''symbol'', JString ''BTCUSDT''),
                  (''timeInForce'', JString ''GTC''), (''timestamp'', JInt64 1700000000000),
                  (''type'', JString ''LIMIT'')]\<rparr>"
proof -
  note inst = C6_signature [where hmac = toy_hmac and api_secret = "''secret''"
      and pairs = place_pairs and ts = 1700000000000 and params = place_params
      and api_key = "''key''" and n = 7 and meth = "''order.place''" and q = "[]"]
  have hyp: "list_all (\<lambda>m. scalar (snd m)) place_params \<and> ''signature'' \<notin> set (map fst place_params)"
    by (simp add: place_params_def scalar_def)
  have rest: "signed_query_string toy_hmac ''secret'' place_pairs 1700000000000
     = ''symbol=BTCUSDT&side=BUY&type=LIMIT&timeInForce=GTC&quantity=0.00100&price=49049.00&timestamp=1700000000000&signature=066aab''"
    using inst [THEN conjunct1]
    by (simp add: place_pairs_def decimal_timestamp toy_hmac_def digest_hex_eval)
  have sig_member: "obj_set ''signature'' (JString ''0675ab'')
      [(''apiKey'', JString ''key''), (''price'', JString ''49049.00''),
        (''quantity'', JString ''0.00100''), (''side'', JString ''BUY''),
        (''symbol'', JString ''BTCUSDT''), (''timeInForce'', JString ''GTC''),
        (''timestamp'', JInt64 1700000000000), (''type'', JString ''LIMIT'')]
     = [(''apiKey'', JString ''key''), (''price'', JString ''49049.00''),
                  (''quantity'', JString ''0.00100''), (''side'', JString ''BUY''),
                  (''signature'', JString ''0675ab''), (''symbol'', JString ''BTCUSDT''),
                  (''timeInForce'', JString ''GTC''), (''timestamp'', JInt64 1700000000000),
                  (''type'', JString ''LIMIT'')]"
    by code_simp
  have id: "generate_request_id 7 = ''req_7''"
    by (simp add: generate_request_id_def decimal_nat.simps digit_char_eval)
  from inst [THEN conjunct2, THEN conjunct2, THEN conjunct2] hyp
  have "create_signed_request toy_hmac ''key'' ''secret'' 7 1700000000000 ''order.place'' place_params
       = Some \<lparr>request_id = ''req_7'', request_method = ''order.place'',
               request_params =
                 [(''apiKey'', JString ''key''), (''price'', JString ''49049.00''),
                  (''quantity'', JString ''0.00100''), (''side'', JString ''BUY''),
                  (''signature'', JString ''0675ab''), (''symbol'', JString ''BTCUSDT''),
                  (''timeInForce'', JString ''GTC''), (''timestamp'', JInt64 1700000000000),
                  (''type'', JString ''LIMIT'')]\<rparr>"
    by (simp add: signed_place_params member_strings_def decimal_timestamp toy_hmac_def
        digest_hex_eval sig_member id)
  with hyp rest show ?thesis by blast
qed

section \<open>Client frames\<close>















end
